theory Spec2Isabelle
  imports Complex_Main
begin

section \<open>ECMAScript values used by the calculator\<close>

text \<open>
  A \<^verbatim>\<open>number\<close> is a rational. The fields of a prescription are any doubles, and the
  two operations \<^verbatim>\<open>src/lib/calculator.ts\<close> does on them, the sum of the two eyes' values
  and its half, round to the nearest double: \<open>roundToDouble\<close> below. The other
  arithmetic of the file is on the literals of the rules and on the fields of a
  recommendation, and is exact. \<^verbatim>\<open>NaN\<close>, the infinities and the negative zero are
  outside this model.
\<close>

type_synonym number = rat

text \<open>
  The nearest double of a rational: 53 significant bits, a tie to the even
  significand, the exponent range taken as unbounded (no overflow, no underflow).
  \<open>bitLength n\<close> is the number of binary digits of a positive integer, and
  \<open>binaryExponent x\<close> the \<open>e\<close> with \<open>2 ^ e \<le> \<bar>x\<bar> < 2 ^ (e + 1)\<close>.
\<close>

function bitLength :: "int \<Rightarrow> int" where
  "bitLength n = (if n \<le> 0 then 0 else 1 + bitLength (n div 2))"
  by pat_completeness auto
termination
  by (relation "measure nat") auto

definition pow2 :: "int \<Rightarrow> rat" where
  "pow2 k = (if 0 \<le> k then 2 ^ nat k else 1 / 2 ^ nat (- k))"

definition binaryExponent :: "rat \<Rightarrow> int" where
  "binaryExponent x =
     (let a = \<bar>x\<bar> in
      if 1 \<le> a then bitLength \<lfloor>a\<rfloor> - 1
      else (let b = bitLength \<lfloor>1 / a\<rfloor>
            in if pow2 (1 - b) \<le> a then 1 - b else - b))"

definition roundTiesToEven :: "rat \<Rightarrow> int" where
  "roundTiesToEven y =
     (let f = \<lfloor>y\<rfloor>; d = y - of_int f
      in if d < 1 / 2 then f
         else if 1 / 2 < d then f + 1
         else if even f then f else f + 1)"

definition roundToDouble :: "number \<Rightarrow> number" where
  "roundToDouble x =
     (if x = 0 then 0
      else (let u = pow2 (binaryExponent x - 52)
            in of_int (roundTiesToEven (x / u)) * u))"

text \<open>\<^verbatim>\<open>Math.round\<close> rounds to the nearest integer, a half towards plus infinity.\<close>

definition Math_round :: "number \<Rightarrow> number" where
  "Math_round x = of_int \<lfloor>x + 1 / 2\<rfloor>"

definition Math_max :: "number \<Rightarrow> number \<Rightarrow> number" where
  "Math_max a b = max a b"

definition Math_abs :: "number \<Rightarrow> number" where
  "Math_abs x = \<bar>x\<bar>"

text \<open>
  A string is its sequence of bytes in UTF-8 (the two non-ASCII characters of the
  source, the multiplication sign and the right arrow, are written as their bytes).
  A text produced by a template literal or by \<^verbatim>\<open>JSON.stringify\<close> is a sequence of
  items: a character, or the characters a number is printed as. The printing of a
  number (\<^verbatim>\<open>Number::toString\<close>, and \<^verbatim>\<open>toFixed(2)\<close>) is not spelled out: the item
  stands for it, one item for one number.
\<close>

datatype item = Ch char | NumberText number | FixedText number

type_synonym Text = "item list"

definition lit :: "string \<Rightarrow> Text" where
  "lit s = map Ch s"

definition num :: "number \<Rightarrow> Text" where
  "num x = [NumberText x]"

definition toFixed2 :: "number \<Rightarrow> Text" where
  "toFixed2 x = [FixedText x]"

definition times_sign :: string where
  "times_sign = [CHR 0xC3, CHR 0x97]"

definition right_arrow :: string where
  "right_arrow = [CHR 0xE2, CHR 0x86, CHR 0x92]"


section \<open>Data model\<close>

record Eye =
  sphere :: number
  cylinder :: number
  axis :: number

record Prescription =
  rightEye :: Eye
  leftEye :: Eye

record VisualConditions =
  myopia :: bool
  hyperopia :: bool
  astigmatism :: bool
  eyeStrain :: bool
  blurOrGhosting :: bool
  lightSensitivity :: bool
  visualCrowding :: bool

datatype ColorVisionType = Normal | Deuteranopia | Protanopia | Tritanopia | Achromatopsia

text \<open>The string each member of the union type \<^verbatim>\<open>ColorVisionType\<close> is at run time.\<close>

fun colorVisionName :: "ColorVisionType \<Rightarrow> string" where
  "colorVisionName Normal = ''normal''"
| "colorVisionName Deuteranopia = ''deuteranopia''"
| "colorVisionName Protanopia = ''protanopia''"
| "colorVisionName Tritanopia = ''tritanopia''"
| "colorVisionName Achromatopsia = ''achromatopsia''"

record CurrentSettings =
  fontSize :: number
  lineHeight :: number
  fontWeight :: number

datatype CursorStyle = Bar | Block | Underline

fun cursorStyleName :: "CursorStyle \<Rightarrow> string" where
  "cursorStyleName Bar = ''bar''"
| "cursorStyleName Block = ''block''"
| "cursorStyleName Underline = ''underline''"

record ResearchCitation =
  finding :: string
  source :: string
  year :: number

record Recommendation =
  fontSize :: number
  lineHeight :: number
  fontWeight :: number
  cursorStyle :: CursorStyle
  suggestedFonts :: "string list"
  suggestedThemes :: "string list"
  explanations :: "Text list"
  research :: "ResearchCitation list"

definition ASTIGMATISM_FRIENDLY_FONTS :: "string list" where
  "ASTIGMATISM_FRIENDLY_FONTS =
     [''IBM Plex Mono'', ''JetBrains Mono'', ''Fira Code'', ''Input Mono'',
      ''Atkinson Hyperlegible Mono'', ''Source Code Pro'']"

record ColorConfig =
  themes :: "string list"
  rationale :: string

fun COLOR_VISION_THEMES :: "ColorVisionType \<Rightarrow> ColorConfig" where
  "COLOR_VISION_THEMES Normal =
     \<lparr>themes = [],
      rationale = ''No specific theme requirements for normal color vision.''\<rparr>"
| "COLOR_VISION_THEMES Deuteranopia =
     \<lparr>themes = [''Solarized Dark'', ''Solarized Light'', ''One Dark'', ''GitHub Dark'',
                ''Catppuccin Mocha''],
      rationale = ''Blue/yellow color schemes work best as the blue cone pathway is intact. Avoid themes that rely on red/green distinctions for syntax highlighting.''\<rparr>"
| "COLOR_VISION_THEMES Protanopia =
     \<lparr>themes = [''Solarized Dark'', ''Solarized Light'', ''Nord'', ''Tokyo Night''],
      rationale = ''Blue-dominant themes work well. Reds will appear very dark, so themes with strong blue/cyan accents are preferred.''\<rparr>"
| "COLOR_VISION_THEMES Tritanopia =
     \<lparr>themes = [''Monokai'', ''Dracula'', ''Gruvbox'', ''Material Theme''],
      rationale = ''Warm color schemes (red/green/orange) work best as these cones are intact. Avoid themes with blue/yellow as primary differentiators.''\<rparr>"
| "COLOR_VISION_THEMES Achromatopsia =
     \<lparr>themes = [''High Contrast'', ''GitHub Light'', ''Paper''],
      rationale = ''Maximum luminance contrast between syntax elements is critical. Monochrome or near-monochrome themes with strong brightness differences.''\<rparr>"


section \<open>The recommendation engine: \<^verbatim>\<open>calculateRecommendations\<close>\<close>

subsection \<open>Reading the prescription\<close>

text \<open>
  The locals \<^verbatim>\<open>avgSphere\<close>, \<^verbatim>\<open>hasSignificantAstigmatism\<close> and \<^verbatim>\<open>astigmatismAxis\<close>
  start at \<^verbatim>\<open>0\<close>, \<^verbatim>\<open>false\<close>, \<^verbatim>\<open>0\<close> and are assigned only when a prescription is given.
  Each mean is \<^verbatim>\<open>(a + b) / 2\<close> in doubles: the sum is rounded, and so is its half.
\<close>

definition avgSphere :: "Prescription option \<Rightarrow> number" where
  "avgSphere prescription =
     (case prescription of
        None \<Rightarrow> 0
      | Some p \<Rightarrow>
          roundToDouble (roundToDouble (sphere (rightEye p) + sphere (leftEye p)) / 2))"

definition avgCylinder :: "Prescription \<Rightarrow> number" where
  "avgCylinder p =
     Math_abs (roundToDouble
       (roundToDouble (cylinder (rightEye p) + cylinder (leftEye p)) / 2))"

definition hasSignificantAstigmatism :: "Prescription option \<Rightarrow> bool" where
  "hasSignificantAstigmatism prescription =
     (case prescription of
        None \<Rightarrow> False
      | Some p \<Rightarrow> avgCylinder p \<ge> 1 / 2)"

definition astigmatismAxis :: "Prescription option \<Rightarrow> number" where
  "astigmatismAxis prescription =
     (case prescription of
        None \<Rightarrow> 0
      | Some p \<Rightarrow> roundToDouble (roundToDouble (axis (rightEye p) + axis (leftEye p)) / 2))"

text \<open>
  The three guarded writes to the caller's \<^verbatim>\<open>conditions\<close> object. The object is
  mutated in place; here the amended object is a result.
\<close>

definition autoDetect :: "VisualConditions \<Rightarrow> Prescription option \<Rightarrow> VisualConditions" where
  "autoDetect conditions prescription =
     (case prescription of
        None \<Rightarrow> conditions
      | Some p \<Rightarrow>
          (let c1 = (if avgSphere prescription < - (1 / 2) \<and> \<not> myopia conditions
                     then conditions\<lparr>myopia := True\<rparr> else conditions);
               c2 = (if avgSphere prescription > 1 / 2 \<and> \<not> hyperopia c1
                     then c1\<lparr>hyperopia := True\<rparr> else c1);
               c3 = (if hasSignificantAstigmatism prescription \<and> \<not> astigmatism c2
                     then c2\<lparr>astigmatism := True\<rparr> else c2)
           in c3))"


subsection \<open>The rules, in the order of the source\<close>

text \<open>
  The eight mutable locals of the function are the eight fields of the record it
  returns, so a rule is a function on that record.
\<close>

definition initial :: Recommendation where
  "initial =
     \<lparr>fontSize = 16, lineHeight = 3 / 2, fontWeight = 400, cursorStyle = Bar,
      suggestedFonts = [], suggestedThemes = [], explanations = [], research = []\<rparr>"

definition push :: "Text \<Rightarrow> Recommendation \<Rightarrow> Recommendation" where
  "push e s = s\<lparr>explanations := explanations s @ [e]\<rparr>"

definition cite :: "ResearchCitation \<Rightarrow> Recommendation \<Rightarrow> Recommendation" where
  "cite c s = s\<lparr>research := research s @ [c]\<rparr>"

definition myopiaCitation :: ResearchCitation where
  "myopiaCitation =
     \<lparr>finding = ''Font sizes below 16pt cause viewing distances under 33cm, associated with eye strain'',
      source = ''Wang K, et al. BMJ Open Ophthalmology'',
      year = 2023\<rparr>"

definition rule_myopia :: "number \<Rightarrow> VisualConditions \<Rightarrow> Recommendation \<Rightarrow> Recommendation" where
  "rule_myopia avgSph conditions s =
     (if myopia conditions then
        (let s1 =
           (if avgSph \<le> - 6 then
              push (lit ''High myopia ('' @ toFixed2 avgSph @
                    lit ''D): Font size increased to 20px. '' @
                    lit ''Research shows high myopes benefit from larger text to maintain comfortable viewing distance.'')
                (s\<lparr>fontSize := 20\<rparr>)
            else if avgSph \<le> - 3 then
              push (lit ''Moderate myopia ('' @ toFixed2 avgSph @
                    lit ''D): Font size set to 18px for optimal acuity reserve.'')
                (s\<lparr>fontSize := 18\<rparr>)
            else
              push (lit ''Mild myopia detected: Font size set to 17px, exceeding the 16pt minimum '' @
                    lit ''recommended by Peking University research for maintaining >33cm viewing distance.'')
                (s\<lparr>fontSize := 17\<rparr>));
             s2 = push (lit ''Block cursor recommended: Higher visibility helps with line tracking, '' @
                        lit ''particularly beneficial for myopic users who may have reduced contrast sensitivity.'')
                    (s1\<lparr>cursorStyle := Block\<rparr>)
         in cite myopiaCitation s2)
      else s)"

definition rule_hyperopia :: "VisualConditions \<Rightarrow> Recommendation \<Rightarrow> Recommendation" where
  "rule_hyperopia conditions s =
     (if hyperopia conditions then
        push (lit ''Hyperopia detected: Increased font size and line height reduce accommodation demand for near work.'')
          (s\<lparr>fontSize := Math_max (fontSize s) 17,
             lineHeight := Math_max (lineHeight s) (8 / 5)\<rparr>)
      else s)"

definition axisNote :: "number \<Rightarrow> string" where
  "axisNote astAxis =
     (if astAxis \<ge> 160 \<or> astAxis \<le> 20 then
        '' Your with-the-rule astigmatism (horizontal axis) causes less degradation for Roman letters.''
      else if astAxis \<ge> 70 \<and> astAxis \<le> 110 then
        '' Against-the-rule astigmatism may cause more difficulty with vertical letter strokes.''
      else
        '' Oblique astigmatism can cause the most letter recognition difficulty.'')"

definition rule_astigmatism :: "number \<Rightarrow> VisualConditions \<Rightarrow> Recommendation \<Rightarrow> Recommendation" where
  "rule_astigmatism astAxis conditions s =
     (if astigmatism conditions then
        (let s1 = s\<lparr>lineHeight := Math_max (lineHeight s) (8 / 5),
                     suggestedFonts := ASTIGMATISM_FRIENDLY_FONTS\<rparr>;
             s2 = push (lit (''Astigmatism: Line height increased to 1.6'' @ times_sign @
                             '' to reduce line-to-line blur.'') @
                        lit (axisNote astAxis) @ lit '' '' @
                        lit ''Fonts with clear letterforms and wider spacing recommended.'') s1;
             s3 = cite \<lparr>finding = ''Astigmatic blur interacts with typography - letter shape and axis orientation affect readability'',
                        source = ''PMC6181807 - Astigmatic axis and visual acuity'',
                        year = 2018\<rparr> s2
         in cite \<lparr>finding = ''0.5-1.0D uncorrected astigmatism significantly increases digital eye strain symptoms'',
                  source = ''Rosenfield M. Ophthalmic and Physiological Optics'',
                  year = 2016\<rparr> s3)
      else s)"

definition rule_eyeStrain :: "VisualConditions \<Rightarrow> Recommendation \<Rightarrow> Recommendation" where
  "rule_eyeStrain conditions s =
     (if eyeStrain conditions then
        (let s1 = s\<lparr>fontSize := Math_max (fontSize s) (fontSize s + 1)\<rparr>;
             s2 = s1\<lparr>lineHeight := Math_max (lineHeight s1) (8 / 5)\<rparr>;
             s3 = push (lit ''Eye strain: Larger font sizes reduce accommodation lag, a primary cause of eye strain. '' @
                        lit ''Research shows accommodation lag is worse with smaller fonts.'') s2
         in cite \<lparr>finding = ''Larger font sizes significantly reduce accommodation lag and improve eye function'',
                  source = ''Nanotechnology Perceptions - Font Size and Accommodation'',
                  year = 2024\<rparr> s3)
      else s)"

definition rule_blurOrGhosting :: "VisualConditions \<Rightarrow> Recommendation \<Rightarrow> Recommendation" where
  "rule_blurOrGhosting conditions s =
     (if blurOrGhosting conditions then
        (let s1 = s\<lparr>fontSize := Math_max (fontSize s) (fontSize s + 1)\<rparr>;
             s2 = s1\<lparr>cursorStyle := Block\<rparr>
         in if \<not> lightSensitivity conditions then
              push (lit ''Blur/ghosting: Font weight increased to 500 (medium) for better edge definition. '' @
                    lit ''Block cursor provides clearer position indicator.'')
                (s2\<lparr>fontWeight := 500\<rparr>)
            else
              push (lit ''Blur/ghosting with light sensitivity: Font weight kept at 400 to avoid '' @
                    lit ''increased brightness from heavier strokes. Block cursor still recommended.'')
                s2)
      else s)"

definition rule_lightSensitivity :: "VisualConditions \<Rightarrow> Recommendation \<Rightarrow> Recommendation" where
  "rule_lightSensitivity conditions s =
     (if lightSensitivity conditions then
        push (lit ''Light sensitivity: Font weight capped at 400 (regular). Heavier weights '' @
              lit ''increase perceived brightness and can worsen symptoms.'')
          (s\<lparr>fontWeight := 400\<rparr>)
      else s)"

definition rule_visualCrowding :: "VisualConditions \<Rightarrow> Recommendation \<Rightarrow> Recommendation" where
  "rule_visualCrowding conditions s =
     (if visualCrowding conditions then
        (let s1 = s\<lparr>lineHeight := Math_max (lineHeight s) (17 / 10)\<rparr>;
             s2 = (if length (suggestedFonts s1) = 0
                   then s1\<lparr>suggestedFonts := take 3 ASTIGMATISM_FRIENDLY_FONTS\<rparr> else s1);
             s3 = push (lit (''Visual crowding: Line height increased to 1.7'' @ times_sign @
                             '' to reduce interference between lines. '') @
                        lit ''Fonts with wider default spacing recommended.'') s2
         in cite \<lparr>finding = ''Increased line spacing reduces crowding effects and improves reading in peripheral vision'',
                  source = ''Chung STL. Optometry and Vision Science'',
                  year = 2004\<rparr> s3)
      else s)"

definition rule_colorVision :: "ColorVisionType \<Rightarrow> Recommendation \<Rightarrow> Recommendation" where
  "rule_colorVision colorVision s =
     (if colorVision \<noteq> Normal then
        (let colorConfig = COLOR_VISION_THEMES colorVision;
             s1 = s\<lparr>suggestedThemes := themes colorConfig\<rparr>;
             s2 = push (lit ''Color vision ('' @ lit (colorVisionName colorVision) @ lit ''): '' @
                        lit (rationale colorConfig)) s1
         in cite \<lparr>finding = ''Blue/orange palettes work well for red-green CVD as they rely on intact blue cone pathway'',
                  source = ''WCAG 2.1 / Interaction Design Foundation'',
                  year = 2023\<rparr> s2)
      else s)"

definition rule_currentSettings :: "CurrentSettings option \<Rightarrow> Recommendation \<Rightarrow> Recommendation" where
  "rule_currentSettings currentSettings s =
     (case currentSettings of
        None \<Rightarrow> s
      | Some cur \<Rightarrow>
          if CurrentSettings.fontSize cur < fontSize s then
            push (lit ''Your current font size ('' @ num (CurrentSettings.fontSize cur) @
                  lit ''px) is below the recommended '' @
                  num (fontSize s) @
                  lit ''px for your conditions. The 3:1 acuity reserve principle suggests '' @
                  lit (''text should be at least 3'' @ times_sign @
                       '' larger than your barely-readable threshold for maximum reading speed.'')) s
          else s)"

definition rule_always :: "Recommendation \<Rightarrow> Recommendation" where
  "rule_always s =
     (let s1 = cite \<lparr>finding = ''Reading speed and accuracy peak at 1.2-1.5'' @ times_sign @
                                 '' line height; eye strain reduced at 1.5'' @ times_sign @ ''+'',
                       source = ''Nielsen Norman Group / Journal of Experimental Psychology'',
                       year = 2023\<rparr> s
      in push (lit ''Remember the 20-20-20 rule: Every 20 minutes, look at something 20 feet away for 20 seconds. '' @
               lit ''Research shows 30-40 minutes of continuous near work without breaks increases eye strain risk.'') s1)"

text \<open>The blocks of the function body, top to bottom.\<close>

definition ruleSequence ::
  "VisualConditions \<Rightarrow> ColorVisionType \<Rightarrow> Prescription option \<Rightarrow> CurrentSettings option
     \<Rightarrow> (Recommendation \<Rightarrow> Recommendation) list" where
  "ruleSequence conditions colorVision prescription currentSettings =
     [rule_myopia (avgSphere prescription) conditions,
      rule_hyperopia conditions,
      rule_astigmatism (astigmatismAxis prescription) conditions,
      rule_eyeStrain conditions,
      rule_blurOrGhosting conditions,
      rule_lightSensitivity conditions,
      rule_visualCrowding conditions,
      rule_colorVision colorVision,
      rule_currentSettings currentSettings,
      rule_always]"

text \<open>The values of the locals before the first rule and after each rule.\<close>

fun trace :: "('s \<Rightarrow> 's) list \<Rightarrow> 's \<Rightarrow> 's list" where
  "trace [] s = [s]"
| "trace (r # rs) s = s # trace rs (r s)"

text \<open>The \<^verbatim>\<open>return\<close> statement: the two roundings.\<close>

definition rounded :: "Recommendation \<Rightarrow> Recommendation" where
  "rounded s =
     s\<lparr>fontSize := Math_round (fontSize s),
       lineHeight := Math_round (lineHeight s * 10) / 10\<rparr>"

text \<open>
  The function, with the conditions object as it is after the call as the first
  component of the result.
\<close>

definition calculateRecommendations ::
  "VisualConditions \<Rightarrow> ColorVisionType \<Rightarrow> Prescription option \<Rightarrow> CurrentSettings option
     \<Rightarrow> VisualConditions \<times> Recommendation" where
  "calculateRecommendations conditions colorVision prescription currentSettings =
     (let conditions' = autoDetect conditions prescription;
          s = fold (\<lambda>rule s. rule s)
                (ruleSequence conditions' colorVision prescription currentSettings) initial
      in (conditions', rounded s))"


section \<open>The configuration serializer: \<^verbatim>\<open>generateEditorConfig\<close>\<close>

subsection \<open>\<^verbatim>\<open>JSON.stringify(value, null, 2)\<close>\<close>

text \<open>
  The values the function hands to \<^verbatim>\<open>JSON.stringify\<close>: numbers, strings, object
  literals, and \<^verbatim>\<open>undefined\<close> (the \<^verbatim>\<open>theme\<close> of the fallback branch). An object
  literal is its properties in the order they are written.
\<close>

datatype json = JUndefined | JNumber number | JString Text | JObject "(string \<times> json) list"

definition hexDigit :: "nat \<Rightarrow> char" where
  "hexDigit n = ''0123456789abcdef'' ! n"

definition quoteChar :: "char \<Rightarrow> string" where
  "quoteChar c =
     (if c = CHR 0x08 then [CHR 0x5C, CHR ''b'']
      else if c = CHR 0x09 then [CHR 0x5C, CHR ''t'']
      else if c = CHR 0x0A then [CHR 0x5C, CHR ''n'']
      else if c = CHR 0x0C then [CHR 0x5C, CHR ''f'']
      else if c = CHR 0x0D then [CHR 0x5C, CHR ''r'']
      else if c = CHR 0x22 then [CHR 0x5C, CHR 0x22]
      else if c = CHR 0x5C then [CHR 0x5C, CHR 0x5C]
      else if (of_char c :: nat) < 32 then
        [CHR 0x5C, CHR ''u'', CHR ''0'', CHR ''0'',
         hexDigit (of_char c div 16), hexDigit (of_char c mod 16)]
      else [c])"

fun quoteItem :: "item \<Rightarrow> Text" where
  "quoteItem (Ch c) = lit (quoteChar c)"
| "quoteItem (NumberText x) = [NumberText x]"
| "quoteItem (FixedText x) = [FixedText x]"

definition QuoteJSONString :: "Text \<Rightarrow> Text" where
  "QuoteJSONString t = Ch (CHR 0x22) # concat (map quoteItem t) @ [Ch (CHR 0x22)]"

fun join :: "'a list \<Rightarrow> 'a list list \<Rightarrow> 'a list" where
  "join sep [] = []"
| "join sep [x] = x"
| "join sep (x # y # ys) = x @ sep @ join sep (y # ys)"

definition spaces :: "nat \<Rightarrow> Text" where
  "spaces n = replicate n (Ch (CHR '' ''))"

text \<open>
  The layout of an object whose serialized properties are \<open>partial\<close>, at the
  indentation \<open>stepback\<close>, with a gap of two spaces.
\<close>

definition objectText :: "nat \<Rightarrow> Text list \<Rightarrow> Text" where
  "objectText stepback partial =
     (if partial = [] then lit ''{}''
      else
        lit ''{\<newline>'' @ spaces (stepback + 2) @
        join (lit '',\<newline>'' @ spaces (stepback + 2)) partial @
        lit ''\<newline>'' @ spaces stepback @ lit ''}'')"

text \<open>
  \<open>None\<close> is \<^verbatim>\<open>undefined\<close>: a property whose value serializes to \<^verbatim>\<open>undefined\<close> is
  left out of its object.
\<close>

fun SerializeJSONProperty :: "nat \<Rightarrow> json \<Rightarrow> Text option" where
  "SerializeJSONProperty indent JUndefined = None"
| "SerializeJSONProperty indent (JNumber x) = Some (num x)"
| "SerializeJSONProperty indent (JString t) = Some (QuoteJSONString t)"
| "SerializeJSONProperty indent (JObject props) =
     Some (objectText indent
       (concat (map (\<lambda>(k, v).
          case SerializeJSONProperty (indent + 2) v of
            None \<Rightarrow> []
          | Some strP \<Rightarrow> [QuoteJSONString (lit k) @ lit '': '' @ strP]) props)))"

text \<open>\<^verbatim>\<open>JSON.stringify\<close> of an object literal with the properties \<open>props\<close>.\<close>

definition JSON_stringify :: "(string \<times> json) list \<Rightarrow> Text" where
  "JSON_stringify props =
     objectText 0
       (concat (map (\<lambda>(k, v).
          case SerializeJSONProperty 2 v of
            None \<Rightarrow> []
          | Some strP \<Rightarrow> [QuoteJSONString (lit k) @ lit '': '' @ strP]) props))"


subsection \<open>Strings that may be \<^verbatim>\<open>undefined\<close>\<close>

text \<open>
  \<^verbatim>\<open>xs[0]\<close> on an array of strings: \<^verbatim>\<open>undefined\<close> (\<open>None\<close>) on the empty array.
  \<^verbatim>\<open>undefined\<close> and the empty string are the two falsy values of that type.
\<close>

definition first :: "string list \<Rightarrow> string option" where
  "first xs = (case xs of [] \<Rightarrow> None | x # _ \<Rightarrow> Some x)"

definition truthy :: "string option \<Rightarrow> bool" where
  "truthy v = (case v of None \<Rightarrow> False | Some s \<Rightarrow> s \<noteq> [])"

text \<open>\<^verbatim>\<open>v || d\<close>\<close>

definition orElse :: "string option \<Rightarrow> string \<Rightarrow> string" where
  "orElse v d = (case v of None \<Rightarrow> d | Some s \<Rightarrow> if s \<noteq> [] then s else d)"

text \<open>\<^verbatim>\<open>...(v && {k: f(v)})\<close>: the property when \<open>v\<close> is truthy, nothing otherwise.\<close>

definition spreadIf :: "string option \<Rightarrow> string \<Rightarrow> (string \<Rightarrow> json) \<Rightarrow> (string \<times> json) list" where
  "spreadIf v k f = (case v of None \<Rightarrow> [] | Some s \<Rightarrow> if s \<noteq> [] then [(k, f s)] else [])"

text \<open>
  \<^verbatim>\<open>toLowerCase\<close> and \<^verbatim>\<open>replace(/\s+/g, '-')\<close> on ASCII text, which the theme names of
  the table are: the case mapping and the white space of other Unicode characters
  are outside this model.
\<close>

definition lowerChar :: "char \<Rightarrow> char" where
  "lowerChar c =
     (if (65 :: nat) \<le> of_char c \<and> (of_char c :: nat) \<le> 90
      then char_of (of_char c + (32 :: nat)) else c)"

definition toLowerCase :: "string \<Rightarrow> string" where
  "toLowerCase s = map lowerChar s"

definition isWhiteSpace :: "char \<Rightarrow> bool" where
  "isWhiteSpace c =
     (c = CHR '' '' \<or> c = CHR 0x09 \<or> c = CHR 0x0A \<or> c = CHR 0x0B \<or> c = CHR 0x0C \<or> c = CHR 0x0D)"

function replaceWhiteSpaceRuns :: "string \<Rightarrow> string" where
  "replaceWhiteSpaceRuns [] = []"
| "replaceWhiteSpaceRuns (c # cs) =
     (if isWhiteSpace c then CHR ''-'' # replaceWhiteSpaceRuns (dropWhile isWhiteSpace cs)
      else c # replaceWhiteSpaceRuns cs)"
  by pat_completeness auto
termination
  by (relation "measure length") (auto simp: length_dropWhile_le le_imp_less_Suc)


subsection \<open>The function\<close>

text \<open>
  The editor is a string: the type \<^verbatim>\<open>EditorType\<close> names five, and the \<^verbatim>\<open>default\<close>
  branch of the \<^verbatim>\<open>switch\<close> takes every other one.
\<close>

definition font_of :: "Recommendation \<Rightarrow> string" where
  "font_of r = orElse (first (suggestedFonts r)) ''JetBrains Mono''"

definition theme_of :: "Recommendation \<Rightarrow> string option" where
  "theme_of r = first (suggestedThemes r)"

definition vscodeObject :: "Recommendation \<Rightarrow> (string \<times> json) list" where
  "vscodeObject r =
     [(''editor.fontSize'', JNumber (fontSize r)),
      (''editor.lineHeight'', JNumber (lineHeight r)),
      (''editor.fontWeight'', JString (num (fontWeight r))),
      (''editor.cursorStyle'', JString (lit (cursorStyleName (cursorStyle r)))),
      (''editor.fontFamily'',
         JString (lit ([CHR 0x27] @ font_of r @ [CHR 0x27] @ '', 'Fira Code', Consolas, monospace'')))]
     @ spreadIf (theme_of r) ''workbench.colorTheme'' (\<lambda>theme. JString (lit theme))"

definition zedObject :: "Recommendation \<Rightarrow> (string \<times> json) list" where
  "zedObject r =
     [(''buffer_font_size'', JNumber (fontSize r)),
      (''buffer_line_height'', JObject [(''custom'', JNumber (lineHeight r))]),
      (''buffer_font_weight'', JNumber (fontWeight r)),
      (''cursor_shape'', JString (lit (cursorStyleName (cursorStyle r)))),
      (''buffer_font_family'', JString (lit (font_of r)))]
     @ spreadIf (theme_of r) ''theme'' (\<lambda>theme. JString (lit theme))"

definition neovimText :: "Recommendation \<Rightarrow> Text" where
  \<open>neovimText r =
     lit ''-- Vision-optimized settings\<newline>vim.opt.guifont = "'' @ lit (font_of r) @ lit '':h'' @
     num (fontSize r) @
     lit ''"\<newline>vim.opt.linespace = '' @
     num (Math_round ((lineHeight r - 1) * fontSize r)) @
     lit ''\<newline>vim.opt.guicursor = "n-v-c:'' @
     lit (if cursorStyle r = Bar then ''ver25'' else cursorStyleName (cursorStyle r)) @
     lit ''"\<newline>'' @
     (if truthy (theme_of r) then
        lit ''vim.cmd("colorscheme '' @
        lit (replaceWhiteSpaceRuns (toLowerCase (orElse (theme_of r) []))) @
        lit ''")''
      else lit [])\<close>

definition jetbrainsText :: "Recommendation \<Rightarrow> Text" where
  "jetbrainsText r =
     lit (''// JetBrains IDE Settings\<newline>// Settings '' @ right_arrow @ '' Editor '' @ right_arrow @
          '' Font\<newline>Font: '') @
     lit (font_of r) @
     lit ''\<newline>Size: '' @ num (fontSize r) @
     lit ''\<newline>Line spacing: '' @ num (lineHeight r) @
     lit (''\<newline>// Settings '' @ right_arrow @ '' Editor '' @ right_arrow @ '' Color Scheme\<newline>'') @
     (if truthy (theme_of r) then lit ''Theme: '' @ lit (orElse (theme_of r) []) else lit [])"

definition sublimeObject :: "Recommendation \<Rightarrow> (string \<times> json) list" where
  "sublimeObject r =
     [(''font_face'', JString (lit (font_of r))),
      (''font_size'', JNumber (fontSize r)),
      (''line_padding_top'', JNumber (Math_round ((lineHeight r - 1) * fontSize r / 2))),
      (''line_padding_bottom'', JNumber (Math_round ((lineHeight r - 1) * fontSize r / 2))),
      (''caret_style'', JString (lit (if cursorStyle r = Block then ''solid'' else ''smooth'')))]
     @ spreadIf (theme_of r) ''color_scheme''
         (\<lambda>theme. JString (lit (''Packages/Theme/'' @ theme @ ''.tmTheme'')))"

definition defaultObject :: "Recommendation \<Rightarrow> (string \<times> json) list" where
  "defaultObject r =
     [(''fontSize'', JNumber (fontSize r)),
      (''lineHeight'', JNumber (lineHeight r)),
      (''fontWeight'', JNumber (fontWeight r)),
      (''cursorStyle'', JString (lit (cursorStyleName (cursorStyle r)))),
      (''font'', JString (lit (font_of r))),
      (''theme'', (case theme_of r of None \<Rightarrow> JUndefined | Some theme \<Rightarrow> JString (lit theme)))]"

definition generateEditorConfig :: "Recommendation \<Rightarrow> string \<Rightarrow> Text" where
  "generateEditorConfig recommendation editor =
     (if editor = ''vscode'' then JSON_stringify (vscodeObject recommendation)
      else if editor = ''zed'' then JSON_stringify (zedObject recommendation)
      else if editor = ''neovim'' then neovimText recommendation
      else if editor = ''jetbrains'' then jetbrainsText recommendation
      else if editor = ''sublime'' then JSON_stringify (sublimeObject recommendation)
      else JSON_stringify (defaultObject recommendation))"


section \<open>Reading a rendered text back\<close>

text \<open>
  The numbers of a text, in the order they are printed, and the characters after the
  last of them. A number is one item of a text, so reading it back is reading that
  item; that the language prints different numbers differently is taken from it.
\<close>

fun numbersOf :: "Text \<Rightarrow> number list" where
  "numbersOf [] = []"
| "numbersOf (NumberText x # t) = x # numbersOf t"
| "numbersOf (_ # t) = numbersOf t"

fun isCh :: "item \<Rightarrow> bool" where
  "isCh (Ch _) = True"
| "isCh _ = False"

definition afterLastNumber :: "Text \<Rightarrow> Text" where
  "afterLastNumber t = rev (takeWhile isCh (rev t))"


text \<open>A cursor style name and the closing quote, at the start of a text.\<close>

definition readCursorStyle :: "Text \<Rightarrow> CursorStyle option" where
  \<open>readCursorStyle t =
     (if take 4 t = lit ''bar"'' then Some Bar
      else if take 6 t = lit ''block"'' then Some Block
      else if take 10 t = lit ''underline"'' then Some Underline
      else None)\<close>


text \<open>
  Readers for the three JSON outputs: the numbers, and the cursor (for sublime, the
  caret) that follows the last number.
\<close>

definition parse_vscode :: "Text \<Rightarrow> (number \<times> number \<times> number \<times> CursorStyle) option" where
  \<open>parse_vscode t =
     (case numbersOf t of
        [fs, lh, fw] \<Rightarrow>
          (case readCursorStyle
                  (drop (length ''",\<newline>  "editor.cursorStyle": "'') (afterLastNumber t)) of
             Some cs \<Rightarrow> Some (fs, lh, fw, cs)
           | None \<Rightarrow> None)
      | _ \<Rightarrow> None)\<close>

definition parse_zed :: "Text \<Rightarrow> (number \<times> number \<times> number \<times> CursorStyle) option" where
  \<open>parse_zed t =
     (case numbersOf t of
        [fs, lh, fw] \<Rightarrow>
          (case readCursorStyle
                  (drop (length '',\<newline>  "cursor_shape": "'') (afterLastNumber t)) of
             Some cs \<Rightarrow> Some (fs, lh, fw, cs)
           | None \<Rightarrow> None)
      | _ \<Rightarrow> None)\<close>

definition parse_sublime :: "Text \<Rightarrow> (number \<times> bool) option" where
  \<open>parse_sublime t =
     (case numbersOf t of
        [fs, padTop, padBottom] \<Rightarrow>
          (let s = drop (length '',\<newline>  "caret_style": "'') (afterLastNumber t)
           in if take 6 s = lit ''solid"'' then Some (fs, True)
              else if take 7 s = lit ''smooth"'' then Some (fs, False)
              else None)
      | _ \<Rightarrow> None)\<close>

text \<open>The characters \<^verbatim>\<open>JSON.stringify\<close> copies unchanged into a quoted string.\<close>

definition plainChar :: "char \<Rightarrow> bool" where
  "plainChar c = (c \<noteq> CHR 0x22 \<and> c \<noteq> CHR 0x5C \<and> (32 :: nat) \<le> of_char c)"


section \<open>Concrete inputs\<close>

definition noConditions :: VisualConditions where
  "noConditions =
     \<lparr>myopia = False, hyperopia = False, astigmatism = False, eyeStrain = False,
      blurOrGhosting = False, lightSensitivity = False, visualCrowding = False\<rparr>"

text \<open>Scenario B of the specification: both spheres \<open>-7\<close>, cylinders and axes \<open>0\<close>.\<close>

definition scenarioB :: Prescription where
  "scenarioB =
     \<lparr>rightEye = \<lparr>sphere = - 7, cylinder = 0, axis = 0\<rparr>,
      leftEye = \<lparr>sphere = - 7, cylinder = 0, axis = 0\<rparr>\<rparr>"

definition blurAndLight :: VisualConditions where
  "blurAndLight = noConditions\<lparr>blurOrGhosting := True, lightSensitivity := True\<rparr>"

definition blurOnly :: VisualConditions where
  "blurOnly = noConditions\<lparr>blurOrGhosting := True\<rparr>"



text \<open>Records whose first theme, or first font, is the empty string.\<close>

definition emptyThemeName :: Recommendation where
  "emptyThemeName = initial\<lparr>suggestedThemes := [[]]\<rparr>"

definition emptyFontName :: Recommendation where
  "emptyFontName = initial\<lparr>suggestedFonts := [[]]\<rparr>"


text \<open>The result for deuteranopia and nothing else.\<close>

definition deuteranopiaResult :: Recommendation where
  "deuteranopiaResult = snd (calculateRecommendations noConditions Deuteranopia None None)"


section \<open>Facts about the engine\<close>

text \<open>The roundings of the two concrete prescriptions.\<close>

lemma roundToDouble_0 [simp]: "roundToDouble 0 = 0"
  by (simp add: roundToDouble_def)

lemma roundToDouble_scenarioB: "roundToDouble (- 14) = - 14" "roundToDouble (- 7) = - 7"
  by code_simp+

text \<open>
  The rounding at a few values: one tenth, two ties (to the even significand, down
  and up), and a sum next to \<open>-12\<close>.
\<close>

lemma roundToDouble_examples:
  "roundToDouble (1 / 10) = 3602879701896397 / 36028797018963968"
  "roundToDouble (1 + 1 / 2 ^ 53) = 1"
  "roundToDouble (1 + 3 / 2 ^ 53) = 1 + 1 / 2 ^ 51"
  "roundToDouble (- 12 + 1 / 2 ^ 60) = - 12"
  by code_simp+

lemma avgSphere_scenarioB: "avgSphere (Some scenarioB) = - 7"
  by (simp add: avgSphere_def scenarioB_def roundToDouble_scenarioB)

lemma avgCylinder_scenarioB: "avgCylinder scenarioB = 0"
  by (simp add: avgCylinder_def scenarioB_def Math_abs_def)


lemma push_fields [simp]:
  "fontSize (push e s) = fontSize s"
  "lineHeight (push e s) = lineHeight s"
  "fontWeight (push e s) = fontWeight s"
  "cursorStyle (push e s) = cursorStyle s"
  "suggestedFonts (push e s) = suggestedFonts s"
  "suggestedThemes (push e s) = suggestedThemes s"
  "explanations (push e s) = explanations s @ [e]"
  "research (push e s) = research s"
  by (simp_all add: push_def)

lemma cite_fields [simp]:
  "fontSize (cite c s) = fontSize s"
  "lineHeight (cite c s) = lineHeight s"
  "fontWeight (cite c s) = fontWeight s"
  "cursorStyle (cite c s) = cursorStyle s"
  "suggestedFonts (cite c s) = suggestedFonts s"
  "suggestedThemes (cite c s) = suggestedThemes s"
  "explanations (cite c s) = explanations s"
  "research (cite c s) = research s @ [c]"
  by (simp_all add: cite_def)

lemma rule_myopia_fields:
  "fontSize (rule_myopia a c s) =
     (if myopia c then (if a \<le> - 6 then 20 else if a \<le> - 3 then 18 else 17)
      else fontSize s)"
  "lineHeight (rule_myopia a c s) = lineHeight s"
  "fontWeight (rule_myopia a c s) = fontWeight s"
  "cursorStyle (rule_myopia a c s) = (if myopia c then Block else cursorStyle s)"
  "suggestedFonts (rule_myopia a c s) = suggestedFonts s"
  "suggestedThemes (rule_myopia a c s) = suggestedThemes s"
  "research (rule_myopia a c s) = (if myopia c then research s @ [myopiaCitation] else research s)"
  by (simp_all add: rule_myopia_def Let_def)

lemma rule_hyperopia_fields:
  "fontSize (rule_hyperopia c s) = (if hyperopia c then max (fontSize s) 17 else fontSize s)"
  "lineHeight (rule_hyperopia c s) =
     (if hyperopia c then max (lineHeight s) (8 / 5) else lineHeight s)"
  "fontWeight (rule_hyperopia c s) = fontWeight s"
  "cursorStyle (rule_hyperopia c s) = cursorStyle s"
  "suggestedFonts (rule_hyperopia c s) = suggestedFonts s"
  "suggestedThemes (rule_hyperopia c s) = suggestedThemes s"
  by (simp_all add: rule_hyperopia_def Math_max_def)

lemma rule_astigmatism_fields:
  "fontSize (rule_astigmatism x c s) = fontSize s"
  "lineHeight (rule_astigmatism x c s) =
     (if astigmatism c then max (lineHeight s) (8 / 5) else lineHeight s)"
  "fontWeight (rule_astigmatism x c s) = fontWeight s"
  "cursorStyle (rule_astigmatism x c s) = cursorStyle s"
  "suggestedFonts (rule_astigmatism x c s) =
     (if astigmatism c then ASTIGMATISM_FRIENDLY_FONTS else suggestedFonts s)"
  "suggestedThemes (rule_astigmatism x c s) = suggestedThemes s"
  by (simp_all add: rule_astigmatism_def Math_max_def Let_def)

lemma rule_eyeStrain_fields:
  "fontSize (rule_eyeStrain c s) = (if eyeStrain c then fontSize s + 1 else fontSize s)"
  "lineHeight (rule_eyeStrain c s) =
     (if eyeStrain c then max (lineHeight s) (8 / 5) else lineHeight s)"
  "fontWeight (rule_eyeStrain c s) = fontWeight s"
  "cursorStyle (rule_eyeStrain c s) = cursorStyle s"
  "suggestedFonts (rule_eyeStrain c s) = suggestedFonts s"
  "suggestedThemes (rule_eyeStrain c s) = suggestedThemes s"
  by (simp_all add: rule_eyeStrain_def Math_max_def Let_def)

lemma rule_blurOrGhosting_fields:
  "fontSize (rule_blurOrGhosting c s) = (if blurOrGhosting c then fontSize s + 1 else fontSize s)"
  "lineHeight (rule_blurOrGhosting c s) = lineHeight s"
  "fontWeight (rule_blurOrGhosting c s) =
     (if blurOrGhosting c \<and> \<not> lightSensitivity c then 500 else fontWeight s)"
  "cursorStyle (rule_blurOrGhosting c s) = (if blurOrGhosting c then Block else cursorStyle s)"
  "suggestedFonts (rule_blurOrGhosting c s) = suggestedFonts s"
  "suggestedThemes (rule_blurOrGhosting c s) = suggestedThemes s"
  by (simp_all add: rule_blurOrGhosting_def Math_max_def Let_def)

lemma rule_lightSensitivity_fields:
  "fontSize (rule_lightSensitivity c s) = fontSize s"
  "lineHeight (rule_lightSensitivity c s) = lineHeight s"
  "fontWeight (rule_lightSensitivity c s) = (if lightSensitivity c then 400 else fontWeight s)"
  "cursorStyle (rule_lightSensitivity c s) = cursorStyle s"
  "suggestedFonts (rule_lightSensitivity c s) = suggestedFonts s"
  "suggestedThemes (rule_lightSensitivity c s) = suggestedThemes s"
  by (simp_all add: rule_lightSensitivity_def)

lemma rule_visualCrowding_fields:
  "fontSize (rule_visualCrowding c s) = fontSize s"
  "lineHeight (rule_visualCrowding c s) =
     (if visualCrowding c then max (lineHeight s) (17 / 10) else lineHeight s)"
  "fontWeight (rule_visualCrowding c s) = fontWeight s"
  "cursorStyle (rule_visualCrowding c s) = cursorStyle s"
  "suggestedFonts (rule_visualCrowding c s) =
     (if visualCrowding c \<and> suggestedFonts s = [] then take 3 ASTIGMATISM_FRIENDLY_FONTS
      else suggestedFonts s)"
  "suggestedThemes (rule_visualCrowding c s) = suggestedThemes s"
  by (simp_all add: rule_visualCrowding_def Math_max_def Let_def)

lemma rule_colorVision_fields:
  "fontSize (rule_colorVision cv s) = fontSize s"
  "lineHeight (rule_colorVision cv s) = lineHeight s"
  "fontWeight (rule_colorVision cv s) = fontWeight s"
  "cursorStyle (rule_colorVision cv s) = cursorStyle s"
  "suggestedFonts (rule_colorVision cv s) = suggestedFonts s"
  "suggestedThemes (rule_colorVision cv s) =
     (if cv \<noteq> Normal then themes (COLOR_VISION_THEMES cv) else suggestedThemes s)"
  by (simp_all add: rule_colorVision_def Let_def)

lemma rule_currentSettings_fields:
  "fontSize (rule_currentSettings cur s) = fontSize s"
  "lineHeight (rule_currentSettings cur s) = lineHeight s"
  "fontWeight (rule_currentSettings cur s) = fontWeight s"
  "cursorStyle (rule_currentSettings cur s) = cursorStyle s"
  "suggestedFonts (rule_currentSettings cur s) = suggestedFonts s"
  "suggestedThemes (rule_currentSettings cur s) = suggestedThemes s"
  by (simp_all add: rule_currentSettings_def split: option.splits)

lemma rule_always_fields:
  "fontSize (rule_always s) = fontSize s"
  "lineHeight (rule_always s) = lineHeight s"
  "fontWeight (rule_always s) = fontWeight s"
  "cursorStyle (rule_always s) = cursorStyle s"
  "suggestedFonts (rule_always s) = suggestedFonts s"
  "suggestedThemes (rule_always s) = suggestedThemes s"
  by (simp_all add: rule_always_def Let_def)

lemmas rule_fields =
  rule_myopia_fields rule_hyperopia_fields rule_astigmatism_fields rule_eyeStrain_fields
  rule_blurOrGhosting_fields rule_lightSensitivity_fields rule_visualCrowding_fields
  rule_colorVision_fields rule_currentSettings_fields rule_always_fields

lemma rounded_fields [simp]:
  "fontSize (rounded s) = Math_round (fontSize s)"
  "lineHeight (rounded s) = Math_round (lineHeight s * 10) / 10"
  "fontWeight (rounded s) = fontWeight s"
  "cursorStyle (rounded s) = cursorStyle s"
  "suggestedFonts (rounded s) = suggestedFonts s"
  "suggestedThemes (rounded s) = suggestedThemes s"
  "explanations (rounded s) = explanations s"
  "research (rounded s) = research s"
  by (simp_all add: rounded_def)

lemma initial_fields [simp]:
  "fontSize initial = 16"
  "lineHeight initial = 3 / 2"
  "fontWeight initial = 400"
  "cursorStyle initial = Bar"
  "suggestedFonts initial = []"
  "suggestedThemes initial = []"
  "explanations initial = []"
  "research initial = []"
  by (simp_all add: initial_def)

lemma autoDetect_fields:
  "myopia (autoDetect c p) = (myopia c \<or> (p \<noteq> None \<and> avgSphere p < - (1 / 2)))"
  "hyperopia (autoDetect c p) = (hyperopia c \<or> (p \<noteq> None \<and> avgSphere p > 1 / 2))"
  "astigmatism (autoDetect c p) = (astigmatism c \<or> hasSignificantAstigmatism p)"
  "eyeStrain (autoDetect c p) = eyeStrain c"
  "blurOrGhosting (autoDetect c p) = blurOrGhosting c"
  "lightSensitivity (autoDetect c p) = lightSensitivity c"
  "visualCrowding (autoDetect c p) = visualCrowding c"
  by (auto simp: autoDetect_def Let_def hasSignificantAstigmatism_def split: option.splits)

text \<open>The result, with the ten rules applied one after the other.\<close>

lemma calc_snd:
  "snd (calculateRecommendations c cv p cur) =
     rounded (rule_always (rule_currentSettings cur (rule_colorVision cv
       (rule_visualCrowding (autoDetect c p) (rule_lightSensitivity (autoDetect c p)
         (rule_blurOrGhosting (autoDetect c p) (rule_eyeStrain (autoDetect c p)
           (rule_astigmatism (astigmatismAxis p) (autoDetect c p)
             (rule_hyperopia (autoDetect c p)
               (rule_myopia (avgSphere p) (autoDetect c p) initial))))))))))"
  by (simp add: calculateRecommendations_def ruleSequence_def Let_def)

lemma calc_fst: "fst (calculateRecommendations c cv p cur) = autoDetect c p"
  by (simp add: calculateRecommendations_def Let_def)

text \<open>The last state of the trace is the state the rules end in.\<close>

lemma last_trace: "last (trace rs s) = fold (\<lambda>rule s. rule s) rs s"
  by (induction rs arbitrary: s) (auto, (case_tac rs; simp)+)

lemma calc_trace:
  "snd (calculateRecommendations c cv p cur) =
     rounded (last (trace (ruleSequence (autoDetect c p) cv p cur) initial))"
  by (simp add: calculateRecommendations_def Let_def last_trace)

lemma Math_round_ge: "of_int n \<le> x \<Longrightarrow> of_int n \<le> Math_round x"
  unfolding Math_round_def by (simp add: le_floor_iff)

lemma Math_round_tenths_ge: "3 / 2 \<le> x \<Longrightarrow> 3 / 2 \<le> Math_round (x * 10) / 10"
proof -
  assume "3 / 2 \<le> x"
  then have "of_int 15 \<le> x * 10 + 1 / 2" by simp
  then have "15 \<le> \<lfloor>x * 10 + 1 / 2\<rfloor>" by (simp only: le_floor_iff)
  then have "(15 :: rat) \<le> of_int \<lfloor>x * 10 + 1 / 2\<rfloor>" by linarith
  then show ?thesis unfolding Math_round_def by simp
qed

lemma Math_round_of_int [simp]: "Math_round (of_int n) = of_int n"
proof -
  have "\<lfloor>(of_int n :: rat) + 1 / 2\<rfloor> = n"
    by (rule floor_unique) simp_all
  then show ?thesis by (simp add: Math_round_def)
qed

lemma Math_round_numeral [simp]: "Math_round (numeral n) = numeral n"
  using Math_round_of_int [of "numeral n"] by simp

lemma rule_lineHeight_mono:
  "rule \<in> set (ruleSequence c cv p cur) \<Longrightarrow> lineHeight s \<le> lineHeight (rule s)"
  by (auto simp: ruleSequence_def rule_fields)

lemma sorted_trace:
  "(\<And>rule s. rule \<in> set rs \<Longrightarrow> f s \<le> f (rule s)) \<Longrightarrow>
     sorted_wrt (\<lambda>a b. (f a :: rat) \<le> f b) (trace rs s)"
proof (induction rs arbitrary: s)
  case Nil
  then show ?case by simp
next
  case (Cons r rs)
  have step: "f s \<le> f (r s)" using Cons.prems by simp
  have tail: "sorted_wrt (\<lambda>a b. f a \<le> f b) (trace rs (r s))"
    using Cons.IH Cons.prems by simp
  have "\<forall>y \<in> set (trace rs (r s)). f (r s) \<le> f y"
    using tail by (cases rs) auto
  then show ?case using step tail by auto
qed


section \<open>The claims about the engine\<close>

text \<open>
  C2. For every input the returned \<open>fontSize\<close> is at least 16 and the returned
  \<open>lineHeight\<close> at least 1.5, after the final rounding (and before it: the result is
  the rounding of the last state of the trace, and the bounds hold there too). No
  rule of the sequence lowers \<open>lineHeight\<close>, whatever state it is applied to, so the
  \<open>lineHeight\<close> values of the run, rule after rule, never decrease.
\<close>

theorem fontSize_lineHeight_floor:
  "16 \<le> fontSize (snd (calculateRecommendations c cv p cur))
   \<and> 3 / 2 \<le> lineHeight (snd (calculateRecommendations c cv p cur))
   \<and> snd (calculateRecommendations c cv p cur) =
       rounded (last (trace (ruleSequence (fst (calculateRecommendations c cv p cur)) cv p cur)
         initial))
   \<and> 16 \<le> fontSize (last (trace
         (ruleSequence (fst (calculateRecommendations c cv p cur)) cv p cur) initial))
   \<and> 3 / 2 \<le> lineHeight (last (trace
         (ruleSequence (fst (calculateRecommendations c cv p cur)) cv p cur) initial))
   \<and> (\<forall>rule \<in> set (ruleSequence (fst (calculateRecommendations c cv p cur)) cv p cur).
        \<forall>s. lineHeight s \<le> lineHeight (rule s))
   \<and> sorted_wrt (\<lambda>a b. lineHeight a \<le> lineHeight b)
        (trace (ruleSequence (fst (calculateRecommendations c cv p cur)) cv p cur) initial)"
proof -
  let ?c = "fst (calculateRecommendations c cv p cur)"
  let ?s = "last (trace (ruleSequence ?c cv p cur) initial)"
  have res: "snd (calculateRecommendations c cv p cur) = rounded ?s"
    by (simp add: calc_trace calc_fst)
  have fs: "of_int 16 \<le> fontSize ?s"
    by (simp add: last_trace ruleSequence_def rule_fields)
  have lh: "3 / 2 \<le> lineHeight ?s"
    by (simp add: last_trace ruleSequence_def rule_fields)
  have a: "16 \<le> fontSize (snd (calculateRecommendations c cv p cur))"
    using Math_round_ge [OF fs] by (simp add: res)
  have b: "3 / 2 \<le> lineHeight (snd (calculateRecommendations c cv p cur))"
    using Math_round_tenths_ge [OF lh] by (simp add: res)
  have m: "\<forall>rule \<in> set (ruleSequence ?c cv p cur). \<forall>s. lineHeight s \<le> lineHeight (rule s)"
    using rule_lineHeight_mono by blast
  have t: "sorted_wrt (\<lambda>a b. lineHeight a \<le> lineHeight b) (trace (ruleSequence ?c cv p cur) initial)"
    by (rule sorted_trace) (rule rule_lineHeight_mono)
  from fs have fs': "16 \<le> fontSize ?s" by simp
  show ?thesis using a b res fs' lh m t by blast
qed

theorem fontSize_lineHeight_floor_witness:
  "rule_hyperopia (fst (calculateRecommendations blurAndLight Normal (Some scenarioB) None))
     \<in> set (ruleSequence (fst (calculateRecommendations blurAndLight Normal (Some scenarioB) None))
         Normal (Some scenarioB) None)
   \<and> lineHeight initial \<le> lineHeight
       (rule_hyperopia (fst (calculateRecommendations blurAndLight Normal (Some scenarioB) None))
          initial)
   \<and> 16 \<le> fontSize (snd (calculateRecommendations blurAndLight Normal (Some scenarioB) None))
   \<and> 3 / 2 \<le> lineHeight (snd (calculateRecommendations blurAndLight Normal (Some scenarioB) None))"
proof -
  let ?c = "fst (calculateRecommendations blurAndLight Normal (Some scenarioB) None)"
  note t = fontSize_lineHeight_floor [of blurAndLight Normal "Some scenarioB" None]
  have m: "rule_hyperopia ?c \<in> set (ruleSequence ?c Normal (Some scenarioB) None)"
    by (simp add: ruleSequence_def)
  from t have "\<forall>rule \<in> set (ruleSequence ?c Normal (Some scenarioB) None).
      \<forall>s. lineHeight s \<le> lineHeight (rule s)"
    by blast
  with m have l: "lineHeight initial \<le> lineHeight (rule_hyperopia ?c initial)"
    by blast
  from t m l show ?thesis by blast
qed

text \<open>
  C3. With \<open>blurOrGhosting\<close> and \<open>lightSensitivity\<close> both set, the returned
  \<open>fontWeight\<close> is 400, whatever the other flags, the colour vision, the prescription
  and the current settings are. The light-sensitivity rule comes right after the
  blur/ghosting rule in the sequence (positions 5 and 4, counted from 0), and on any
  state it sets the weight to 400.
\<close>

theorem lightSensitivity_resets_fontWeight:
  "blurOrGhosting c \<Longrightarrow> lightSensitivity c \<Longrightarrow>
     fontWeight (snd (calculateRecommendations c cv p cur)) = 400
     \<and> (\<forall>s. fontWeight (rule_lightSensitivity (fst (calculateRecommendations c cv p cur)) s) = 400)
     \<and> ruleSequence (fst (calculateRecommendations c cv p cur)) cv p cur ! 4
         = rule_blurOrGhosting (fst (calculateRecommendations c cv p cur))
     \<and> ruleSequence (fst (calculateRecommendations c cv p cur)) cv p cur ! 5
         = rule_lightSensitivity (fst (calculateRecommendations c cv p cur))"
  by (simp add: calc_snd calc_fst rule_fields autoDetect_fields ruleSequence_def)

theorem lightSensitivity_resets_fontWeight_witness:
  "blurOrGhosting blurAndLight \<and> lightSensitivity blurAndLight
   \<and> fontWeight (snd (calculateRecommendations blurAndLight Deuteranopia (Some scenarioB) None)) = 400
   \<and> fontWeight (rule_lightSensitivity
        (fst (calculateRecommendations blurAndLight Deuteranopia (Some scenarioB) None))
        (initial\<lparr>fontWeight := 500\<rparr>)) = 400"
proof -
  have b: "blurOrGhosting blurAndLight" and l: "lightSensitivity blurAndLight"
    by (simp_all add: blurAndLight_def noConditions_def)
  show ?thesis
    using b l lightSensitivity_resets_fontWeight [OF b l, of Deuteranopia "Some scenarioB" None]
    by simp
qed

text \<open>
  C4. When myopia holds after the prescription has been read (set by the caller or
  auto-detected), the myopia rule, the first of the sequence, sets \<open>fontSize\<close> by the
  tier of \<open>avgSphere\<close> (which is 0 without a prescription): 20 when it is at most -6,
  18 when it is above -6 and at most -3, 17 otherwise; it sets the cursor to block and
  appends exactly one citation, the myopia citation. With spheres -7 and -7, cylinders
  and axes 0 and no flag set, the result has \<open>fontSize\<close> 20 and a block cursor.
\<close>

theorem myopia_rule_tiers:
  "myopia (fst (calculateRecommendations c cv p cur)) \<Longrightarrow>
     hd (ruleSequence (fst (calculateRecommendations c cv p cur)) cv p cur)
       = rule_myopia (avgSphere p) (fst (calculateRecommendations c cv p cur))
     \<and> avgSphere None = 0
     \<and> (\<forall>s. fontSize (rule_myopia (avgSphere p) (fst (calculateRecommendations c cv p cur)) s)
            = (if avgSphere p \<le> - 6 then 20 else if avgSphere p \<le> - 3 then 18 else 17)
          \<and> cursorStyle (rule_myopia (avgSphere p) (fst (calculateRecommendations c cv p cur)) s)
            = Block
          \<and> research (rule_myopia (avgSphere p) (fst (calculateRecommendations c cv p cur)) s)
            = research s @ [myopiaCitation])
     \<and> fontSize (snd (calculateRecommendations noConditions cv (Some scenarioB) cur)) = 20
     \<and> cursorStyle (snd (calculateRecommendations noConditions cv (Some scenarioB) cur)) = Block"
  by (simp add: calc_snd calc_fst rule_fields autoDetect_fields ruleSequence_def
      avgSphere_scenarioB avgCylinder_scenarioB noConditions_def hasSignificantAstigmatism_def
      avgSphere_def [of None])

theorem myopia_rule_tiers_witness:
  "myopia (fst (calculateRecommendations noConditions Normal (Some scenarioB) None))
   \<and> avgSphere (Some scenarioB) = - 7
   \<and> fontSize (rule_myopia (avgSphere (Some scenarioB))
        (fst (calculateRecommendations noConditions Normal (Some scenarioB) None)) initial) = 20
   \<and> fontSize (snd (calculateRecommendations noConditions Normal (Some scenarioB) None)) = 20"
proof -
  have a: "avgSphere (Some scenarioB) = - 7"
    by (rule avgSphere_scenarioB)
  have m: "myopia (fst (calculateRecommendations noConditions Normal (Some scenarioB) None))"
    by (simp add: calc_fst autoDetect_fields a)
  show ?thesis
    using m a myopia_rule_tiers [OF m] by simp
qed



text \<open>
  C6. The returned \<open>suggestedThemes\<close> is the entry of the theme table for the colour
  vision type, in the table's order, and it is non-empty exactly when the type is
  not \<open>normal\<close>.
\<close>

theorem suggestedThemes_table:
  "suggestedThemes (snd (calculateRecommendations c cv p cur)) =
     (case cv of
        Normal \<Rightarrow> []
      | Deuteranopia \<Rightarrow>
          [''Solarized Dark'', ''Solarized Light'', ''One Dark'', ''GitHub Dark'',
           ''Catppuccin Mocha'']
      | Protanopia \<Rightarrow> [''Solarized Dark'', ''Solarized Light'', ''Nord'', ''Tokyo Night'']
      | Tritanopia \<Rightarrow> [''Monokai'', ''Dracula'', ''Gruvbox'', ''Material Theme'']
      | Achromatopsia \<Rightarrow> [''High Contrast'', ''GitHub Light'', ''Paper''])
   \<and> ((suggestedThemes (snd (calculateRecommendations c cv p cur)) \<noteq> []) = (cv \<noteq> Normal))"
  by (cases cv) (simp_all add: calc_snd rule_fields)

text \<open>
  C7. Scenario C: astigmatism set, every other flag clear, normal colour vision, no
  prescription. The result has \<open>lineHeight\<close> 1.6 and the six astigmatism-friendly
  fonts in their order; the axis is 0 and the first explanation, the astigmatism one,
  carries the with-the-rule note.
\<close>

theorem scenario_astigmatism_only:
  "lineHeight (snd (calculateRecommendations (noConditions\<lparr>astigmatism := True\<rparr>) Normal None cur))
     = 8 / 5
   \<and> suggestedFonts (snd (calculateRecommendations (noConditions\<lparr>astigmatism := True\<rparr>) Normal None cur))
     = [''IBM Plex Mono'', ''JetBrains Mono'', ''Fira Code'', ''Input Mono'',
        ''Atkinson Hyperlegible Mono'', ''Source Code Pro'']
   \<and> astigmatismAxis None = 0
   \<and> axisNote (astigmatismAxis None) =
       '' Your with-the-rule astigmatism (horizontal axis) causes less degradation for Roman letters.''
   \<and> hd (explanations (snd (calculateRecommendations (noConditions\<lparr>astigmatism := True\<rparr>) Normal None cur)))
     = lit (''Astigmatism: Line height increased to 1.6'' @ times_sign @
            '' to reduce line-to-line blur. Your with-the-rule astigmatism (horizontal axis) causes less degradation for Roman letters. Fonts with clear letterforms and wider spacing recommended.'')"
proof -
  let ?r = "snd (calculateRecommendations (noConditions\<lparr>astigmatism := True\<rparr>) Normal None cur)"
  have lh: "lineHeight ?r = 8 / 5"
    by (simp add: calc_snd rule_fields autoDetect_fields noConditions_def
        hasSignificantAstigmatism_def)
  have fonts: "suggestedFonts ?r = ASTIGMATISM_FRIENDLY_FONTS"
    by (simp add: calc_snd rule_fields autoDetect_fields noConditions_def
        hasSignificantAstigmatism_def)
  have ax: "astigmatismAxis None = 0"
    by (simp add: astigmatismAxis_def)
  have ex: "hd (explanations ?r)
     = lit (''Astigmatism: Line height increased to 1.6'' @ times_sign @
            '' to reduce line-to-line blur. Your with-the-rule astigmatism (horizontal axis) causes less degradation for Roman letters. Fonts with clear letterforms and wider spacing recommended.'')"
    by (simp add: calc_snd autoDetect_def noConditions_def ax rule_myopia_def rule_hyperopia_def
        rule_astigmatism_def rule_eyeStrain_def rule_blurOrGhosting_def rule_lightSensitivity_def
        rule_visualCrowding_def rule_colorVision_def rule_always_def rule_currentSettings_def
        axisNote_def Let_def lit_def split: option.splits)
  have an: "axisNote (astigmatismAxis None) =
       '' Your with-the-rule astigmatism (horizontal axis) causes less degradation for Roman letters.''"
    by (simp add: ax axisNote_def)
  show ?thesis using lh fonts ax an ex by (simp add: ASTIGMATISM_FRIENDLY_FONTS_def)
qed

text \<open>
  C10. The returned cursor style is never underline: it is block exactly when myopia
  holds after the prescription has been read or \<open>blurOrGhosting\<close> is set, and bar
  otherwise.
\<close>

theorem cursorStyle_never_underline:
  "cursorStyle (snd (calculateRecommendations c cv p cur)) \<noteq> Underline
   \<and> cursorStyle (snd (calculateRecommendations c cv p cur)) =
       (if myopia (fst (calculateRecommendations c cv p cur)) \<or> blurOrGhosting c
        then Block else Bar)"
  by (simp add: calc_snd calc_fst rule_fields autoDetect_fields)


section \<open>Facts about the serializer\<close>

text \<open>\<^verbatim>\<open>JSON.stringify\<close> of an object literal is the serialization of the object.\<close>

lemma JSON_stringify_object:
  "SerializeJSONProperty 0 (JObject props) = Some (JSON_stringify props)"
  by (simp add: JSON_stringify_def numeral_2_eq_2)

lemma spaces_simps: "spaces 0 = []" "spaces (Suc n) = Ch (CHR 0x20) # spaces n"
  "spaces 2 = [Ch (CHR 0x20), Ch (CHR 0x20)]"
  "spaces 4 = [Ch (CHR 0x20), Ch (CHR 0x20), Ch (CHR 0x20), Ch (CHR 0x20)]"
  by (simp_all add: spaces_def numeral_eq_Suc)

lemma quoteChar_plain: "plainChar c \<Longrightarrow> quoteChar c = [c]"
  by (auto simp: plainChar_def quoteChar_def)

lemma concat_quote_plain:
  "list_all plainChar s \<Longrightarrow> concat (map quoteItem (lit s)) = lit s"
  by (induction s) (simp_all add: lit_def quoteChar_plain)

lemma quote_plain:
  "list_all plainChar s \<Longrightarrow> QuoteJSONString (lit s) = Ch (CHR 0x22) # lit s @ [Ch (CHR 0x22)]"
  by (simp add: QuoteJSONString_def concat_quote_plain)

lemma quote_cursorStyleName:
  "QuoteJSONString (lit (cursorStyleName cs)) =
     Ch (CHR 0x22) # lit (cursorStyleName cs) @ [Ch (CHR 0x22)]"
  by (cases cs) (simp_all add: quote_plain plainChar_def)

lemma quote_num: "QuoteJSONString (num x) = Ch (CHR 0x22) # NumberText x # [Ch (CHR 0x22)]"
  by (simp add: QuoteJSONString_def num_def)

lemma spreadIf_truthy:
  "truthy v \<Longrightarrow> spreadIf v k f = [(k, f (orElse v []))]"
  by (auto simp: truthy_def spreadIf_def orElse_def split: option.splits)

lemma spreadIf_falsy:
  "\<not> truthy v \<Longrightarrow> spreadIf v k f = []"
  by (auto simp: truthy_def spreadIf_def split: option.splits)

lemma vscode_stringify:
  \<open>JSON_stringify (vscodeObject r) =
     lit ''{\<newline>  "editor.fontSize": '' @ num (fontSize r) @
     lit '',\<newline>  "editor.lineHeight": '' @ num (lineHeight r) @
     lit '',\<newline>  "editor.fontWeight": "'' @ num (fontWeight r) @
     lit ''",\<newline>  "editor.cursorStyle": "'' @ lit (cursorStyleName (cursorStyle r)) @
     lit ''",\<newline>  "editor.fontFamily": '' @
     QuoteJSONString (lit ([CHR 0x27] @ font_of r @ [CHR 0x27] @ '', 'Fira Code', Consolas, monospace'')) @
     (if truthy (theme_of r)
      then lit '',\<newline>  "workbench.colorTheme": '' @ QuoteJSONString (lit (orElse (theme_of r) []))
      else []) @
     lit ''\<newline>}''\<close>
proof (cases "truthy (theme_of r)")
  case True
  show ?thesis
    apply (simp add: JSON_stringify_def vscodeObject_def spreadIf_truthy True
      objectText_def spaces_simps quote_cursorStyleName quote_num quote_plain plainChar_def)
    apply (simp add: lit_def num_def)
    done
next
  case False
  show ?thesis
    apply (simp add: JSON_stringify_def vscodeObject_def spreadIf_falsy False
      objectText_def spaces_simps quote_cursorStyleName quote_num quote_plain plainChar_def)
    apply (simp add: lit_def num_def)
    done
qed

lemma zed_stringify:
  \<open>JSON_stringify (zedObject r) =
     lit ''{\<newline>  "buffer_font_size": '' @ num (fontSize r) @
     lit '',\<newline>  "buffer_line_height": {\<newline>    "custom": '' @ num (lineHeight r) @
     lit ''\<newline>  },\<newline>  "buffer_font_weight": '' @ num (fontWeight r) @
     lit '',\<newline>  "cursor_shape": "'' @ lit (cursorStyleName (cursorStyle r)) @
     lit ''",\<newline>  "buffer_font_family": '' @ QuoteJSONString (lit (font_of r)) @
     (if truthy (theme_of r)
      then lit '',\<newline>  "theme": '' @ QuoteJSONString (lit (orElse (theme_of r) []))
      else []) @
     lit ''\<newline>}''\<close>
proof (cases "truthy (theme_of r)")
  case True
  show ?thesis
    apply (simp add: JSON_stringify_def zedObject_def spreadIf_truthy True
      objectText_def spaces_simps quote_cursorStyleName quote_num quote_plain plainChar_def)
    apply (simp add: lit_def num_def)
    done
next
  case False
  show ?thesis
    apply (simp add: JSON_stringify_def zedObject_def spreadIf_falsy False
      objectText_def spaces_simps quote_cursorStyleName quote_num quote_plain plainChar_def)
    apply (simp add: lit_def num_def)
    done
qed

lemma sublime_stringify:
  \<open>JSON_stringify (sublimeObject r) =
     lit ''{\<newline>  "font_face": '' @ QuoteJSONString (lit (font_of r)) @
     lit '',\<newline>  "font_size": '' @ num (fontSize r) @
     lit '',\<newline>  "line_padding_top": '' @
       num (Math_round ((lineHeight r - 1) * fontSize r / 2)) @
     lit '',\<newline>  "line_padding_bottom": '' @
       num (Math_round ((lineHeight r - 1) * fontSize r / 2)) @
     lit '',\<newline>  "caret_style": "'' @
       lit (if cursorStyle r = Block then ''solid'' else ''smooth'') @ lit ''"'' @
     (if truthy (theme_of r)
      then lit '',\<newline>  "color_scheme": '' @
           QuoteJSONString (lit (''Packages/Theme/'' @ orElse (theme_of r) [] @ ''.tmTheme''))
      else []) @
     lit ''\<newline>}''\<close>
proof (cases "truthy (theme_of r)")
  case True
  show ?thesis
    apply (simp add: JSON_stringify_def sublimeObject_def spreadIf_truthy True
      objectText_def spaces_simps quote_num quote_plain plainChar_def)
    apply (simp add: lit_def num_def)
    done
next
  case False
  show ?thesis
    apply (simp add: JSON_stringify_def sublimeObject_def spreadIf_falsy False
      objectText_def spaces_simps quote_num quote_plain plainChar_def)
    apply (simp add: lit_def num_def)
    done
qed

lemma default_stringify:
  \<open>JSON_stringify (defaultObject r) =
     lit ''{\<newline>  "fontSize": '' @ num (fontSize r) @
     lit '',\<newline>  "lineHeight": '' @ num (lineHeight r) @
     lit '',\<newline>  "fontWeight": '' @ num (fontWeight r) @
     lit '',\<newline>  "cursorStyle": "'' @ lit (cursorStyleName (cursorStyle r)) @
     lit ''",\<newline>  "font": '' @ QuoteJSONString (lit (font_of r)) @
     (case theme_of r of
        None \<Rightarrow> []
      | Some theme \<Rightarrow> lit '',\<newline>  "theme": '' @ QuoteJSONString (lit theme)) @
     lit ''\<newline>}''\<close>
proof (cases "theme_of r")
  case None
  show ?thesis
    apply (simp add: JSON_stringify_def defaultObject_def None
      objectText_def spaces_simps quote_cursorStyleName quote_num quote_plain plainChar_def)
    apply (simp add: lit_def num_def)
    done
next
  case (Some t)
  show ?thesis
    apply (simp add: JSON_stringify_def defaultObject_def Some
      objectText_def spaces_simps quote_cursorStyleName quote_num quote_plain plainChar_def)
    apply (simp add: lit_def num_def)
    done
qed


lemma numbersOf_append [simp]: "numbersOf (a @ b) = numbersOf a @ numbersOf b"
  by (induction a rule: numbersOf.induct) simp_all

lemma numbersOf_lit [simp]: "numbersOf (lit s) = []"
  by (induction s) (simp_all add: lit_def)

lemma numbersOf_num [simp]: "numbersOf (num x) = [x]"
  by (simp add: num_def)

lemma quote_lit: "QuoteJSONString (lit s) = lit (CHR 0x22 # concat (map quoteChar s) @ [CHR 0x22])"
  by (induction s) (simp_all add: QuoteJSONString_def lit_def)

lemma numbersOf_quote_lit [simp]: "numbersOf (QuoteJSONString (lit s)) = []"
  by (simp add: quote_lit)

lemma all_isCh_lit [simp]: "list_all isCh (lit s)"
  by (induction s) (simp_all add: lit_def)

lemma afterLastNumber_tail:
  "list_all isCh b \<Longrightarrow> afterLastNumber (a @ NumberText x # b) = b"
proof -
  assume b: "list_all isCh b"
  have "takeWhile isCh (rev b @ NumberText x # rev a) = rev b"
    using b by (simp add: takeWhile_tail list_all_iff)
  then show ?thesis by (simp add: afterLastNumber_def)
qed

lemma afterLastNumber_lit:
  "afterLastNumber (a @ NumberText x # lit s) = lit s"
  by (rule afterLastNumber_tail) simp


lemma readCursorStyle_name:
  "readCursorStyle (lit (cursorStyleName cs) @ Ch (CHR 0x22) # u) = Some cs"
  by (cases cs) (simp_all add: readCursorStyle_def lit_def)

lemma drop_lit: "drop (length k) (lit k @ z) = z"
  by (simp add: lit_def)

lemma all_isCh_quote [simp]: "list_all isCh (QuoteJSONString (lit s))"
  by (simp add: quote_lit)

lemma theme_of_Nil: "suggestedThemes r = [] \<Longrightarrow> \<not> truthy (theme_of r)"
  by (simp add: theme_of_def first_def truthy_def)

lemma theme_of_empty: "suggestedThemes r = [] # ts \<Longrightarrow> \<not> truthy (theme_of r)"
  by (simp add: theme_of_def first_def truthy_def)

lemma theme_of_Cons:
  assumes "suggestedThemes r = t # ts \<and> t \<noteq> []"
  shows "truthy (theme_of r)" and "orElse (theme_of r) [] = t"
  using assms by (simp_all add: theme_of_def first_def truthy_def orElse_def)

lemma gen_simps:
  "generateEditorConfig r ''vscode'' = JSON_stringify (vscodeObject r)"
  "generateEditorConfig r ''zed'' = JSON_stringify (zedObject r)"
  "generateEditorConfig r ''neovim'' = neovimText r"
  "generateEditorConfig r ''jetbrains'' = jetbrainsText r"
  "generateEditorConfig r ''sublime'' = JSON_stringify (sublimeObject r)"
  by (simp_all add: generateEditorConfig_def)

lemma keys_no_theme:
  "\<not> truthy (theme_of r) \<Longrightarrow>
     map fst (vscodeObject r) =
       [''editor.fontSize'', ''editor.lineHeight'', ''editor.fontWeight'',
        ''editor.cursorStyle'', ''editor.fontFamily'']
   \<and> map fst (zedObject r) =
       [''buffer_font_size'', ''buffer_line_height'', ''buffer_font_weight'',
        ''cursor_shape'', ''buffer_font_family'']
   \<and> map fst (sublimeObject r) =
       [''font_face'', ''font_size'', ''line_padding_top'', ''line_padding_bottom'',
        ''caret_style'']"
  by (simp add: vscodeObject_def zedObject_def sublimeObject_def spreadIf_falsy)

lemma values_theme:
  "truthy (theme_of r) \<Longrightarrow>
     map_of (vscodeObject r) ''workbench.colorTheme''
       = Some (JString (lit (orElse (theme_of r) [])))
   \<and> map_of (zedObject r) ''theme'' = Some (JString (lit (orElse (theme_of r) [])))
   \<and> map_of (sublimeObject r) ''color_scheme''
       = Some (JString (lit (''Packages/Theme/'' @ orElse (theme_of r) [] @ ''.tmTheme'')))"
  by (simp add: vscodeObject_def zedObject_def sublimeObject_def spreadIf_truthy)

lemma font_of_themes [simp]: "font_of (r\<lparr>suggestedThemes := ts\<rparr>) = font_of r"
  by (simp add: font_of_def)

lemma no_theme_texts:
  assumes "\<not> truthy (theme_of r)"
  shows \<open>generateEditorConfig r ''vscode'' =
        lit ''{\<newline>  "editor.fontSize": '' @ num (fontSize r) @
        lit '',\<newline>  "editor.lineHeight": '' @ num (lineHeight r) @
        lit '',\<newline>  "editor.fontWeight": "'' @ num (fontWeight r) @
        lit ''",\<newline>  "editor.cursorStyle": "'' @ lit (cursorStyleName (cursorStyle r)) @
        lit ''",\<newline>  "editor.fontFamily": '' @
        QuoteJSONString (lit ([CHR 0x27] @ font_of r @ [CHR 0x27] @ '', 'Fira Code', Consolas, monospace'')) @
        lit ''\<newline>}''\<close>
    and \<open>generateEditorConfig r ''zed'' =
        lit ''{\<newline>  "buffer_font_size": '' @ num (fontSize r) @
        lit '',\<newline>  "buffer_line_height": {\<newline>    "custom": '' @ num (lineHeight r) @
        lit ''\<newline>  },\<newline>  "buffer_font_weight": '' @ num (fontWeight r) @
        lit '',\<newline>  "cursor_shape": "'' @ lit (cursorStyleName (cursorStyle r)) @
        lit ''",\<newline>  "buffer_font_family": '' @ QuoteJSONString (lit (font_of r)) @
        lit ''\<newline>}''\<close>
    and \<open>generateEditorConfig r ''sublime'' =
        lit ''{\<newline>  "font_face": '' @ QuoteJSONString (lit (font_of r)) @
        lit '',\<newline>  "font_size": '' @ num (fontSize r) @
        lit '',\<newline>  "line_padding_top": '' @
          num (Math_round ((lineHeight r - 1) * fontSize r / 2)) @
        lit '',\<newline>  "line_padding_bottom": '' @
          num (Math_round ((lineHeight r - 1) * fontSize r / 2)) @
        lit '',\<newline>  "caret_style": "'' @
          lit (if cursorStyle r = Block then ''solid'' else ''smooth'') @ lit ''"'' @
        lit ''\<newline>}''\<close>
    and \<open>generateEditorConfig r ''neovim'' =
        lit ''-- Vision-optimized settings\<newline>vim.opt.guifont = "'' @ lit (font_of r) @
        lit '':h'' @ num (fontSize r) @
        lit ''"\<newline>vim.opt.linespace = '' @
        num (Math_round ((lineHeight r - 1) * fontSize r)) @
        lit ''\<newline>vim.opt.guicursor = "n-v-c:'' @
        lit (if cursorStyle r = Bar then ''ver25'' else cursorStyleName (cursorStyle r)) @
        lit ''"\<newline>''\<close>
    and \<open>generateEditorConfig r ''jetbrains'' =
        lit (''// JetBrains IDE Settings\<newline>// Settings '' @ right_arrow @ '' Editor '' @
             right_arrow @ '' Font\<newline>Font: '') @
        lit (font_of r) @
        lit ''\<newline>Size: '' @ num (fontSize r) @
        lit ''\<newline>Line spacing: '' @ num (lineHeight r) @
        lit (''\<newline>// Settings '' @ right_arrow @ '' Editor '' @ right_arrow @
             '' Color Scheme\<newline>'')\<close>
  using assms
  by (simp_all add: gen_simps vscode_stringify zed_stringify sublime_stringify
      neovimText_def jetbrainsText_def lit_def)

lemma theme_texts:
  assumes "truthy (theme_of r)"
  shows \<open>generateEditorConfig r ''vscode'' =
        lit ''{\<newline>  "editor.fontSize": '' @ num (fontSize r) @
        lit '',\<newline>  "editor.lineHeight": '' @ num (lineHeight r) @
        lit '',\<newline>  "editor.fontWeight": "'' @ num (fontWeight r) @
        lit ''",\<newline>  "editor.cursorStyle": "'' @ lit (cursorStyleName (cursorStyle r)) @
        lit ''",\<newline>  "editor.fontFamily": '' @
        QuoteJSONString (lit ([CHR 0x27] @ font_of r @ [CHR 0x27] @ '', 'Fira Code', Consolas, monospace'')) @
        lit '',\<newline>  "workbench.colorTheme": '' @
        QuoteJSONString (lit (orElse (theme_of r) [])) @
        lit ''\<newline>}''\<close>
    and \<open>generateEditorConfig r ''zed'' =
        lit ''{\<newline>  "buffer_font_size": '' @ num (fontSize r) @
        lit '',\<newline>  "buffer_line_height": {\<newline>    "custom": '' @ num (lineHeight r) @
        lit ''\<newline>  },\<newline>  "buffer_font_weight": '' @ num (fontWeight r) @
        lit '',\<newline>  "cursor_shape": "'' @ lit (cursorStyleName (cursorStyle r)) @
        lit ''",\<newline>  "buffer_font_family": '' @ QuoteJSONString (lit (font_of r)) @
        lit '',\<newline>  "theme": '' @ QuoteJSONString (lit (orElse (theme_of r) [])) @
        lit ''\<newline>}''\<close>
    and \<open>generateEditorConfig r ''sublime'' =
        lit ''{\<newline>  "font_face": '' @ QuoteJSONString (lit (font_of r)) @
        lit '',\<newline>  "font_size": '' @ num (fontSize r) @
        lit '',\<newline>  "line_padding_top": '' @
          num (Math_round ((lineHeight r - 1) * fontSize r / 2)) @
        lit '',\<newline>  "line_padding_bottom": '' @
          num (Math_round ((lineHeight r - 1) * fontSize r / 2)) @
        lit '',\<newline>  "caret_style": "'' @
          lit (if cursorStyle r = Block then ''solid'' else ''smooth'') @ lit ''"'' @
        lit '',\<newline>  "color_scheme": '' @
        QuoteJSONString (lit (''Packages/Theme/'' @ orElse (theme_of r) [] @ ''.tmTheme'')) @
        lit ''\<newline>}''\<close>
    and \<open>generateEditorConfig r ''neovim'' =
        lit ''-- Vision-optimized settings\<newline>vim.opt.guifont = "'' @ lit (font_of r) @
        lit '':h'' @ num (fontSize r) @
        lit ''"\<newline>vim.opt.linespace = '' @
        num (Math_round ((lineHeight r - 1) * fontSize r)) @
        lit ''\<newline>vim.opt.guicursor = "n-v-c:'' @
        lit (if cursorStyle r = Bar then ''ver25'' else cursorStyleName (cursorStyle r)) @
        lit ''"\<newline>'' @
        lit ''vim.cmd("colorscheme '' @
        lit (replaceWhiteSpaceRuns (toLowerCase (orElse (theme_of r) []))) @ lit ''")''\<close>
    and \<open>generateEditorConfig r ''jetbrains'' =
        lit (''// JetBrains IDE Settings\<newline>// Settings '' @ right_arrow @ '' Editor '' @
             right_arrow @ '' Font\<newline>Font: '') @
        lit (font_of r) @
        lit ''\<newline>Size: '' @ num (fontSize r) @
        lit ''\<newline>Line spacing: '' @ num (lineHeight r) @
        lit (''\<newline>// Settings '' @ right_arrow @ '' Editor '' @ right_arrow @
             '' Color Scheme\<newline>'') @
        lit ''Theme: '' @ lit (orElse (theme_of r) [])\<close>
  using assms
  by (simp_all add: gen_simps vscode_stringify zed_stringify sublime_stringify
      neovimText_def jetbrainsText_def)

lemma font_of_cases:
  "font_of r =
     (case suggestedFonts r of
        [] \<Rightarrow> ''JetBrains Mono''
      | f # _ \<Rightarrow> if f = [] then ''JetBrains Mono'' else f)"
  by (simp add: font_of_def first_def orElse_def split: list.splits)

lemma theme_of_cleared: "\<not> truthy (theme_of (r\<lparr>suggestedThemes := []\<rparr>))"
  by (simp add: theme_of_def first_def truthy_def)

lemma parse_vscode_render:
  "parse_vscode (generateEditorConfig r ''vscode'')
     = Some (fontSize r, lineHeight r, fontWeight r, cursorStyle r)"
proof -
  let ?t = "generateEditorConfig r ''vscode''"
  let ?pre = \<open>lit ''{\<newline>  "editor.fontSize": '' @ num (fontSize r) @
     lit '',\<newline>  "editor.lineHeight": '' @ num (lineHeight r) @
     lit '',\<newline>  "editor.fontWeight": "''\<close>
  let ?u = \<open>lit '',\<newline>  "editor.fontFamily": '' @
     QuoteJSONString (lit ([CHR 0x27] @ font_of r @ [CHR 0x27] @ '', 'Fira Code', Consolas, monospace'')) @
     (if truthy (theme_of r)
      then lit '',\<newline>  "workbench.colorTheme": '' @ QuoteJSONString (lit (orElse (theme_of r) []))
      else []) @
     lit ''\<newline>}''\<close>
  have t: "?t = JSON_stringify (vscodeObject r)"
    by (simp add: generateEditorConfig_def)
  have n: "numbersOf ?t = [fontSize r, lineHeight r, fontWeight r]"
    by (simp add: t vscode_stringify)
  have sh: \<open>?t = ?pre @ NumberText (fontWeight r) #
      (lit ''",\<newline>  "editor.cursorStyle": "'' @
         (lit (cursorStyleName (cursorStyle r)) @ Ch (CHR 0x22) # ?u))\<close>
    unfolding t vscode_stringify by (simp add: lit_def num_def)
  have u: "list_all isCh ?u"
    by simp
  have a: \<open>afterLastNumber ?t =
      lit ''",\<newline>  "editor.cursorStyle": "'' @
         (lit (cursorStyleName (cursorStyle r)) @ Ch (CHR 0x22) # ?u)\<close>
    by (subst sh, rule afterLastNumber_tail) (simp add: u)
  show ?thesis
    unfolding parse_vscode_def n a drop_lit readCursorStyle_name by simp
qed


lemma parse_zed_render:
  "parse_zed (generateEditorConfig r ''zed'')
     = Some (fontSize r, lineHeight r, fontWeight r, cursorStyle r)"
proof -
  let ?t = "generateEditorConfig r ''zed''"
  let ?pre = \<open>lit ''{\<newline>  "buffer_font_size": '' @ num (fontSize r) @
     lit '',\<newline>  "buffer_line_height": {\<newline>    "custom": '' @ num (lineHeight r) @
     lit ''\<newline>  },\<newline>  "buffer_font_weight": ''\<close>
  let ?u = \<open>lit '',\<newline>  "buffer_font_family": '' @ QuoteJSONString (lit (font_of r)) @
     (if truthy (theme_of r)
      then lit '',\<newline>  "theme": '' @ QuoteJSONString (lit (orElse (theme_of r) []))
      else []) @
     lit ''\<newline>}''\<close>
  have t: "?t = JSON_stringify (zedObject r)"
    by (simp add: generateEditorConfig_def)
  have n: "numbersOf ?t = [fontSize r, lineHeight r, fontWeight r]"
    by (simp add: t zed_stringify)
  have sh: \<open>?t = ?pre @ NumberText (fontWeight r) #
      (lit '',\<newline>  "cursor_shape": "'' @
         (lit (cursorStyleName (cursorStyle r)) @ Ch (CHR 0x22) # ?u))\<close>
    unfolding t zed_stringify by (simp add: lit_def num_def)
  have u: "list_all isCh ?u"
    by simp
  have a: \<open>afterLastNumber ?t =
      lit '',\<newline>  "cursor_shape": "'' @
         (lit (cursorStyleName (cursorStyle r)) @ Ch (CHR 0x22) # ?u)\<close>
    by (subst sh, rule afterLastNumber_tail) (simp add: u)
  show ?thesis
    unfolding parse_zed_def n a drop_lit readCursorStyle_name by simp
qed

lemma parse_sublime_render:
  "parse_sublime (generateEditorConfig r ''sublime'')
     = Some (fontSize r, cursorStyle r = Block)"
proof -
  let ?t = "generateEditorConfig r ''sublime''"
  let ?pad = "Math_round ((lineHeight r - 1) * fontSize r / 2)"
  let ?pre = \<open>lit ''{\<newline>  "font_face": '' @ QuoteJSONString (lit (font_of r)) @
     lit '',\<newline>  "font_size": '' @ num (fontSize r) @
     lit '',\<newline>  "line_padding_top": '' @ num ?pad @
     lit '',\<newline>  "line_padding_bottom": ''\<close>
  let ?u = \<open>(if truthy (theme_of r)
      then lit '',\<newline>  "color_scheme": '' @
           QuoteJSONString (lit (''Packages/Theme/'' @ orElse (theme_of r) [] @ ''.tmTheme''))
      else []) @
     lit ''\<newline>}''\<close>
  let ?caret = "lit (if cursorStyle r = Block then ''solid'' else ''smooth'') @ Ch (CHR 0x22) # ?u"
  have t: "?t = JSON_stringify (sublimeObject r)"
    by (simp add: generateEditorConfig_def)
  have n: "numbersOf ?t = [fontSize r, ?pad, ?pad]"
    by (simp add: t sublime_stringify)
  have sh: \<open>?t = ?pre @ NumberText ?pad # (lit '',\<newline>  "caret_style": "'' @ ?caret)\<close>
    unfolding t sublime_stringify by (simp add: lit_def num_def)
  have u: "list_all isCh ?caret"
    by simp
  have a: \<open>afterLastNumber ?t = lit '',\<newline>  "caret_style": "'' @ ?caret\<close>
    by (subst sh, rule afterLastNumber_tail) (use u in simp)
  have c: \<open>take 6 ?caret = lit ''solid"'' \<longleftrightarrow> cursorStyle r = Block\<close>
    by (simp add: lit_def)
  have d: \<open>cursorStyle r \<noteq> Block \<Longrightarrow> take 7 ?caret = lit ''smooth"''\<close>
    by (simp add: lit_def)
  show ?thesis
    unfolding parse_sublime_def n a drop_lit using c d by (simp add: Let_def)
qed

lemma sublimeObject_cong:
  "fontSize r = fontSize r' \<Longrightarrow> lineHeight r = lineHeight r' \<Longrightarrow>
   cursorStyle r = cursorStyle r' \<Longrightarrow> suggestedFonts r = suggestedFonts r' \<Longrightarrow>
   suggestedThemes r = suggestedThemes r' \<Longrightarrow> sublimeObject r = sublimeObject r'"
  by (simp add: sublimeObject_def font_of_def theme_of_def)

lemma Math_round_22_5: "Math_round (22 / 5) = 4"
proof -
  have "\<lfloor>(22 / 5 :: rat) + 1 / 2\<rfloor> = 4"
    by (rule floor_unique) simp_all
  then show ?thesis by (simp add: Math_round_def)
qed


section \<open>The claims about the serializer\<close>

text \<open>
  C1. The vscode and zed texts carry \<open>fontSize\<close>, \<open>lineHeight\<close>, \<open>fontWeight\<close>
  and \<open>cursorStyle\<close>, and a reader gets the four back from either. The
  sublime text carries \<open>fontSize\<close> and whether the cursor is block, and a reader gets
  those two back; it does not depend on \<open>fontWeight\<close>, it is the same for a bar and an
  underline cursor, and it is the same for the line heights 1.5 and 1.55 at size 16.
\<close>

theorem render_parse_roundtrip:
  "parse_vscode (generateEditorConfig r ''vscode'')
     = Some (fontSize r, lineHeight r, fontWeight r, cursorStyle r)
   \<and> parse_zed (generateEditorConfig r ''zed'')
     = Some (fontSize r, lineHeight r, fontWeight r, cursorStyle r)
   \<and> parse_sublime (generateEditorConfig r ''sublime'')
     = Some (fontSize r, cursorStyle r = Block)
   \<and> generateEditorConfig (r\<lparr>fontWeight := w\<rparr>) ''sublime'' = generateEditorConfig r ''sublime''
   \<and> generateEditorConfig (r\<lparr>cursorStyle := Underline\<rparr>) ''sublime''
     = generateEditorConfig (r\<lparr>cursorStyle := Bar\<rparr>) ''sublime''
   \<and> generateEditorConfig (initial\<lparr>lineHeight := 31 / 20\<rparr>) ''sublime''
     = generateEditorConfig initial ''sublime''"
proof -
  have w: "sublimeObject (r\<lparr>fontWeight := w\<rparr>) = sublimeObject r"
    by (rule sublimeObject_cong) simp_all
  have c: "sublimeObject (r\<lparr>cursorStyle := Underline\<rparr>) = sublimeObject (r\<lparr>cursorStyle := Bar\<rparr>)"
    by (simp add: sublimeObject_def font_of_def theme_of_def)
  have l: "sublimeObject (initial\<lparr>lineHeight := 31 / 20\<rparr>) = sublimeObject initial"
    by (simp add: sublimeObject_def font_of_def theme_of_def Math_round_22_5)
  show ?thesis
    using parse_vscode_render [of r] parse_zed_render [of r] parse_sublime_render [of r] w c l
    by (simp add: gen_simps)
qed

text \<open>
  C1, where the claim as written fails. Blur alone and blur with light sensitivity
  give results with the weights 500 and 400 and the same sublime text, so no reader of
  the sublime text returns the weight.
\<close>

theorem sublime_forgets_fontWeight:
  "fontWeight (snd (calculateRecommendations blurOnly Normal None None)) = 500
   \<and> fontWeight (snd (calculateRecommendations blurAndLight Normal None None)) = 400
   \<and> generateEditorConfig (snd (calculateRecommendations blurOnly Normal None None)) ''sublime''
     = generateEditorConfig (snd (calculateRecommendations blurAndLight Normal None None)) ''sublime''"
proof -
  let ?a = "snd (calculateRecommendations blurOnly Normal None None)"
  let ?b = "snd (calculateRecommendations blurAndLight Normal None None)"
  have fa: "fontWeight ?a = 500" and fb: "fontWeight ?b = 400"
    by (simp_all add: calc_snd rule_fields autoDetect_fields blurOnly_def blurAndLight_def
        noConditions_def)
  have "sublimeObject ?a = sublimeObject ?b"
    by (rule sublimeObject_cong)
      (simp_all add: calc_snd rule_fields autoDetect_fields blurOnly_def blurAndLight_def
        noConditions_def hasSignificantAstigmatism_def)
  then show ?thesis using fa fb by (simp add: generateEditorConfig_def)
qed

text \<open>
  C8. With no suggested theme the objects for vscode, zed and sublime have their
  five keys and no theme key, and the five texts are the ones below: the JSON
  texts close after the last of the five properties, the neovim and jetbrains texts
  end with the line break before the place of the theme line. With a first theme that
  is not the empty string, the theme key is there with that theme as its value (for
  sublime inside the package path), neovim gets the colorscheme line with the theme
  in lower case and each run of white space replaced by a hyphen, and jetbrains the
  line \<^verbatim>\<open>Theme: \<close> and the theme. A first theme that is the empty string is treated
  as no theme.
\<close>

theorem theme_key_omitted_without_theme:
  \<open>(suggestedThemes r = [] \<longrightarrow>
      map fst (vscodeObject r) =
        [''editor.fontSize'', ''editor.lineHeight'', ''editor.fontWeight'',
         ''editor.cursorStyle'', ''editor.fontFamily'']
    \<and> map fst (zedObject r) =
        [''buffer_font_size'', ''buffer_line_height'', ''buffer_font_weight'',
         ''cursor_shape'', ''buffer_font_family'']
    \<and> map fst (sublimeObject r) =
        [''font_face'', ''font_size'', ''line_padding_top'', ''line_padding_bottom'',
         ''caret_style'']
    \<and> generateEditorConfig r ''vscode'' =
        lit ''{\<newline>  "editor.fontSize": '' @ num (fontSize r) @
        lit '',\<newline>  "editor.lineHeight": '' @ num (lineHeight r) @
        lit '',\<newline>  "editor.fontWeight": "'' @ num (fontWeight r) @
        lit ''",\<newline>  "editor.cursorStyle": "'' @ lit (cursorStyleName (cursorStyle r)) @
        lit ''",\<newline>  "editor.fontFamily": '' @
        QuoteJSONString (lit ([CHR 0x27] @ font_of r @ [CHR 0x27] @ '', 'Fira Code', Consolas, monospace'')) @
        lit ''\<newline>}''
    \<and> generateEditorConfig r ''zed'' =
        lit ''{\<newline>  "buffer_font_size": '' @ num (fontSize r) @
        lit '',\<newline>  "buffer_line_height": {\<newline>    "custom": '' @ num (lineHeight r) @
        lit ''\<newline>  },\<newline>  "buffer_font_weight": '' @ num (fontWeight r) @
        lit '',\<newline>  "cursor_shape": "'' @ lit (cursorStyleName (cursorStyle r)) @
        lit ''",\<newline>  "buffer_font_family": '' @ QuoteJSONString (lit (font_of r)) @
        lit ''\<newline>}''
    \<and> generateEditorConfig r ''sublime'' =
        lit ''{\<newline>  "font_face": '' @ QuoteJSONString (lit (font_of r)) @
        lit '',\<newline>  "font_size": '' @ num (fontSize r) @
        lit '',\<newline>  "line_padding_top": '' @
          num (Math_round ((lineHeight r - 1) * fontSize r / 2)) @
        lit '',\<newline>  "line_padding_bottom": '' @
          num (Math_round ((lineHeight r - 1) * fontSize r / 2)) @
        lit '',\<newline>  "caret_style": "'' @
          lit (if cursorStyle r = Block then ''solid'' else ''smooth'') @ lit ''"'' @
        lit ''\<newline>}''
    \<and> generateEditorConfig r ''neovim'' =
        lit ''-- Vision-optimized settings\<newline>vim.opt.guifont = "'' @ lit (font_of r) @
        lit '':h'' @ num (fontSize r) @
        lit ''"\<newline>vim.opt.linespace = '' @
        num (Math_round ((lineHeight r - 1) * fontSize r)) @
        lit ''\<newline>vim.opt.guicursor = "n-v-c:'' @
        lit (if cursorStyle r = Bar then ''ver25'' else cursorStyleName (cursorStyle r)) @
        lit ''"\<newline>''
    \<and> generateEditorConfig r ''jetbrains'' =
        lit (''// JetBrains IDE Settings\<newline>// Settings '' @ right_arrow @ '' Editor '' @
             right_arrow @ '' Font\<newline>Font: '') @
        lit (font_of r) @
        lit ''\<newline>Size: '' @ num (fontSize r) @
        lit ''\<newline>Line spacing: '' @ num (lineHeight r) @
        lit (''\<newline>// Settings '' @ right_arrow @ '' Editor '' @ right_arrow @
             '' Color Scheme\<newline>''))
   \<and> (\<forall>t ts. suggestedThemes r = t # ts \<and> t \<noteq> [] \<longrightarrow>
      map_of (vscodeObject r) ''workbench.colorTheme'' = Some (JString (lit t))
    \<and> map_of (zedObject r) ''theme'' = Some (JString (lit t))
    \<and> map_of (sublimeObject r) ''color_scheme''
        = Some (JString (lit (''Packages/Theme/'' @ t @ ''.tmTheme'')))
    \<and> generateEditorConfig r ''vscode'' =
        lit ''{\<newline>  "editor.fontSize": '' @ num (fontSize r) @
        lit '',\<newline>  "editor.lineHeight": '' @ num (lineHeight r) @
        lit '',\<newline>  "editor.fontWeight": "'' @ num (fontWeight r) @
        lit ''",\<newline>  "editor.cursorStyle": "'' @ lit (cursorStyleName (cursorStyle r)) @
        lit ''",\<newline>  "editor.fontFamily": '' @
        QuoteJSONString (lit ([CHR 0x27] @ font_of r @ [CHR 0x27] @ '', 'Fira Code', Consolas, monospace'')) @
        lit '',\<newline>  "workbench.colorTheme": '' @ QuoteJSONString (lit t) @
        lit ''\<newline>}''
    \<and> generateEditorConfig r ''zed'' =
        lit ''{\<newline>  "buffer_font_size": '' @ num (fontSize r) @
        lit '',\<newline>  "buffer_line_height": {\<newline>    "custom": '' @ num (lineHeight r) @
        lit ''\<newline>  },\<newline>  "buffer_font_weight": '' @ num (fontWeight r) @
        lit '',\<newline>  "cursor_shape": "'' @ lit (cursorStyleName (cursorStyle r)) @
        lit ''",\<newline>  "buffer_font_family": '' @ QuoteJSONString (lit (font_of r)) @
        lit '',\<newline>  "theme": '' @ QuoteJSONString (lit t) @
        lit ''\<newline>}''
    \<and> generateEditorConfig r ''sublime'' =
        lit ''{\<newline>  "font_face": '' @ QuoteJSONString (lit (font_of r)) @
        lit '',\<newline>  "font_size": '' @ num (fontSize r) @
        lit '',\<newline>  "line_padding_top": '' @
          num (Math_round ((lineHeight r - 1) * fontSize r / 2)) @
        lit '',\<newline>  "line_padding_bottom": '' @
          num (Math_round ((lineHeight r - 1) * fontSize r / 2)) @
        lit '',\<newline>  "caret_style": "'' @
          lit (if cursorStyle r = Block then ''solid'' else ''smooth'') @ lit ''"'' @
        lit '',\<newline>  "color_scheme": '' @
        QuoteJSONString (lit (''Packages/Theme/'' @ t @ ''.tmTheme'')) @
        lit ''\<newline>}''
    \<and> generateEditorConfig r ''neovim'' =
        generateEditorConfig (r\<lparr>suggestedThemes := []\<rparr>) ''neovim'' @
        lit ''vim.cmd("colorscheme '' @ lit (replaceWhiteSpaceRuns (toLowerCase t)) @ lit ''")''
    \<and> generateEditorConfig r ''jetbrains'' =
        generateEditorConfig (r\<lparr>suggestedThemes := []\<rparr>) ''jetbrains'' @
        lit ''Theme: '' @ lit t)
   \<and> (\<forall>ts. suggestedThemes r = [] # ts \<longrightarrow>
      generateEditorConfig r ''vscode'' = generateEditorConfig (r\<lparr>suggestedThemes := []\<rparr>) ''vscode''
    \<and> generateEditorConfig r ''zed'' = generateEditorConfig (r\<lparr>suggestedThemes := []\<rparr>) ''zed''
    \<and> generateEditorConfig r ''sublime'' = generateEditorConfig (r\<lparr>suggestedThemes := []\<rparr>) ''sublime''
    \<and> generateEditorConfig r ''neovim'' = generateEditorConfig (r\<lparr>suggestedThemes := []\<rparr>) ''neovim''
    \<and> generateEditorConfig r ''jetbrains'' = generateEditorConfig (r\<lparr>suggestedThemes := []\<rparr>) ''jetbrains'')\<close>
  apply (intro conjI impI allI)
  subgoal premises p using keys_no_theme [OF theme_of_Nil [OF p]] by simp
  subgoal premises p using keys_no_theme [OF theme_of_Nil [OF p]] by simp
  subgoal premises p using keys_no_theme [OF theme_of_Nil [OF p]] by simp
  subgoal premises p by (rule no_theme_texts(1) [OF theme_of_Nil [OF p]])
  subgoal premises p by (rule no_theme_texts(2) [OF theme_of_Nil [OF p]])
  subgoal premises p by (rule no_theme_texts(3) [OF theme_of_Nil [OF p]])
  subgoal premises p by (rule no_theme_texts(4) [OF theme_of_Nil [OF p]])
  subgoal premises p by (rule no_theme_texts(5) [OF theme_of_Nil [OF p]])
  subgoal premises p using values_theme [OF theme_of_Cons(1) [OF p]]
    by (simp add: theme_of_Cons(2) [OF p])
  subgoal premises p using values_theme [OF theme_of_Cons(1) [OF p]]
    by (simp add: theme_of_Cons(2) [OF p])
  subgoal premises p using values_theme [OF theme_of_Cons(1) [OF p]]
    by (simp add: theme_of_Cons(2) [OF p])
  subgoal premises p using theme_texts(1) [OF theme_of_Cons(1) [OF p]]
    by (simp only: theme_of_Cons(2) [OF p])
  subgoal premises p using theme_texts(2) [OF theme_of_Cons(1) [OF p]]
    by (simp only: theme_of_Cons(2) [OF p])
  subgoal premises p using theme_texts(3) [OF theme_of_Cons(1) [OF p]]
    by (simp only: theme_of_Cons(2) [OF p])
  subgoal premises p
    unfolding theme_texts(4) [OF theme_of_Cons(1) [OF p]] no_theme_texts(4) [OF theme_of_cleared]
      theme_of_Cons(2) [OF p]
    by simp
  subgoal premises p
    unfolding theme_texts(5) [OF theme_of_Cons(1) [OF p]] no_theme_texts(5) [OF theme_of_cleared]
      theme_of_Cons(2) [OF p]
    by simp
  subgoal premises p
    unfolding no_theme_texts(1) [OF theme_of_empty [OF p]] no_theme_texts(1) [OF theme_of_cleared]
    by simp
  subgoal premises p
    unfolding no_theme_texts(2) [OF theme_of_empty [OF p]] no_theme_texts(2) [OF theme_of_cleared]
    by simp
  subgoal premises p
    unfolding no_theme_texts(3) [OF theme_of_empty [OF p]] no_theme_texts(3) [OF theme_of_cleared]
    by simp
  subgoal premises p
    unfolding no_theme_texts(4) [OF theme_of_empty [OF p]] no_theme_texts(4) [OF theme_of_cleared]
    by simp
  subgoal premises p
    unfolding no_theme_texts(5) [OF theme_of_empty [OF p]] no_theme_texts(5) [OF theme_of_cleared]
    by simp
  done

text \<open>C8, at the initial record, at the result for deuteranopia, and at an empty theme name.\<close>

theorem theme_key_omitted_without_theme_witness:
  \<open>suggestedThemes initial = []
   \<and> map fst (vscodeObject initial) =
        [''editor.fontSize'', ''editor.lineHeight'', ''editor.fontWeight'',
         ''editor.cursorStyle'', ''editor.fontFamily'']
   \<and> suggestedThemes deuteranopiaResult =
        [''Solarized Dark'', ''Solarized Light'', ''One Dark'', ''GitHub Dark'',
         ''Catppuccin Mocha'']
   \<and> map_of (vscodeObject deuteranopiaResult) ''workbench.colorTheme''
        = Some (JString (lit ''Solarized Dark''))
   \<and> generateEditorConfig deuteranopiaResult ''jetbrains'' =
        generateEditorConfig (deuteranopiaResult\<lparr>suggestedThemes := []\<rparr>) ''jetbrains'' @
        lit ''Theme: '' @ lit ''Solarized Dark''
   \<and> suggestedThemes emptyThemeName = [[]]
   \<and> generateEditorConfig emptyThemeName ''zed''
        = generateEditorConfig (emptyThemeName\<lparr>suggestedThemes := []\<rparr>) ''zed''\<close>
proof -
  have e: "suggestedThemes initial = []"
    by simp
  have d: "suggestedThemes deuteranopiaResult =
      [''Solarized Dark'', ''Solarized Light'', ''One Dark'', ''GitHub Dark'',
       ''Catppuccin Mocha'']"
    by (simp add: deuteranopiaResult_def calc_snd rule_fields)
  then have d': "suggestedThemes deuteranopiaResult =
      ''Solarized Dark'' # [''Solarized Light'', ''One Dark'', ''GitHub Dark'',
       ''Catppuccin Mocha''] \<and> ''Solarized Dark'' \<noteq> []"
    by simp
  have n: "suggestedThemes emptyThemeName = [] # []"
    by (simp add: emptyThemeName_def)
  note a = theme_key_omitted_without_theme [of initial, THEN conjunct1, THEN mp, OF e]
  note b = theme_key_omitted_without_theme [of deuteranopiaResult, THEN conjunct2, THEN conjunct1, THEN spec, THEN spec,
      THEN mp, OF d']
  note c = theme_key_omitted_without_theme [of emptyThemeName, THEN conjunct2, THEN conjunct2, THEN spec, THEN mp, OF n]
  from a have a1: "map fst (vscodeObject initial) =
        [''editor.fontSize'', ''editor.lineHeight'', ''editor.fontWeight'',
         ''editor.cursorStyle'', ''editor.fontFamily'']"
    by (rule conjunct1)
  from b have b1: "map_of (vscodeObject deuteranopiaResult) ''workbench.colorTheme''
        = Some (JString (lit ''Solarized Dark''))"
    by (rule conjunct1)
  from b have b2: \<open>generateEditorConfig deuteranopiaResult ''jetbrains'' =
        generateEditorConfig (deuteranopiaResult\<lparr>suggestedThemes := []\<rparr>) ''jetbrains'' @
        lit ''Theme: '' @ lit ''Solarized Dark''\<close>
    by (elim conjE)
  from c have c1: "generateEditorConfig emptyThemeName ''zed''
        = generateEditorConfig (emptyThemeName\<lparr>suggestedThemes := []\<rparr>) ''zed''"
    by (elim conjE)
  from e a1 d b1 b2 n c1 show ?thesis
    by (intro conjI) simp_all
qed

text \<open>
  C8, where the claim as written fails. \<open>suggestedThemes\<close> is the one-element list
  holding the empty string: it is not empty, and the first entry is not used as the
  theme. The vscode object has no theme key, and the jetbrains text has no theme line.
\<close>

theorem empty_theme_name_is_omitted:
  \<open>suggestedThemes emptyThemeName \<noteq> []
   \<and> hd (suggestedThemes emptyThemeName) = []
   \<and> map fst (vscodeObject emptyThemeName) =
        [''editor.fontSize'', ''editor.lineHeight'', ''editor.fontWeight'',
         ''editor.cursorStyle'', ''editor.fontFamily'']
   \<and> generateEditorConfig emptyThemeName ''vscode'' =
        generateEditorConfig (emptyThemeName\<lparr>suggestedThemes := []\<rparr>) ''vscode''
   \<and> generateEditorConfig emptyThemeName ''jetbrains'' =
        lit (''// JetBrains IDE Settings\<newline>// Settings '' @ right_arrow @ '' Editor '' @
             right_arrow @ '' Font\<newline>Font: JetBrains Mono\<newline>Size: '') @ num 16 @
        lit ''\<newline>Line spacing: '' @ num (3 / 2) @
        lit (''\<newline>// Settings '' @ right_arrow @ '' Editor '' @ right_arrow @
             '' Color Scheme\<newline>'')\<close>
proof -
  have n: "suggestedThemes emptyThemeName = [] # []"
    by (simp add: emptyThemeName_def)
  note a = theme_of_empty [OF n]
  have f: "font_of emptyThemeName = ''JetBrains Mono''"
    by (simp add: font_of_cases emptyThemeName_def)
  have k: "map fst (vscodeObject emptyThemeName) =
        [''editor.fontSize'', ''editor.lineHeight'', ''editor.fontWeight'',
         ''editor.cursorStyle'', ''editor.fontFamily'']"
    using keys_no_theme [OF a] by simp
  have v: "generateEditorConfig emptyThemeName ''vscode'' =
        generateEditorConfig (emptyThemeName\<lparr>suggestedThemes := []\<rparr>) ''vscode''"
    unfolding no_theme_texts(1) [OF a] no_theme_texts(1) [OF theme_of_cleared] by simp
  have j: \<open>generateEditorConfig emptyThemeName ''jetbrains'' =
        lit (''// JetBrains IDE Settings\<newline>// Settings '' @ right_arrow @ '' Editor '' @
             right_arrow @ '' Font\<newline>Font: JetBrains Mono\<newline>Size: '') @ num 16 @
        lit ''\<newline>Line spacing: '' @ num (3 / 2) @
        lit (''\<newline>// Settings '' @ right_arrow @ '' Editor '' @ right_arrow @
             '' Color Scheme\<newline>'')\<close>
    unfolding no_theme_texts(5) [OF a] f by (simp add: emptyThemeName_def lit_def)
  from n k v j show ?thesis
    by (intro conjI) simp_all
qed

text \<open>
  C9. The function has no branch that raises, and every editor gets a text that is
  not empty. For an editor that is none of the five, the text is the JSON text of the
  fields below: \<open>font\<close> is the first suggested font, or \<^verbatim>\<open>JetBrains Mono\<close> when
  there is none or when it is the empty string; the \<open>theme\<close> key is there with the
  first suggested theme, and absent when there is none.
\<close>

theorem unknown_editor_generic_dump:
  \<open>generateEditorConfig r editor \<noteq> []
   \<and> (editor \<notin> {''vscode'', ''zed'', ''neovim'', ''jetbrains'', ''sublime''} \<longrightarrow>
     generateEditorConfig r editor =
       lit ''{\<newline>  "fontSize": '' @ num (fontSize r) @
       lit '',\<newline>  "lineHeight": '' @ num (lineHeight r) @
       lit '',\<newline>  "fontWeight": '' @ num (fontWeight r) @
       lit '',\<newline>  "cursorStyle": "'' @ lit (cursorStyleName (cursorStyle r)) @
       lit ''",\<newline>  "font": '' @
       QuoteJSONString (lit
         (case suggestedFonts r of
            [] \<Rightarrow> ''JetBrains Mono''
          | f # _ \<Rightarrow> if f = [] then ''JetBrains Mono'' else f)) @
       (case suggestedThemes r of
          [] \<Rightarrow> []
        | t # _ \<Rightarrow> lit '',\<newline>  "theme": '' @ QuoteJSONString (lit t)) @
       lit ''\<newline>}'')\<close>
proof (intro conjI impI)
  show "generateEditorConfig r editor \<noteq> []"
    by (simp add: generateEditorConfig_def JSON_stringify_def objectText_def neovimText_def
        jetbrainsText_def lit_def)
next
  assume e: "editor \<notin> {''vscode'', ''zed'', ''neovim'', ''jetbrains'', ''sublime''}"
  then have g: "generateEditorConfig r editor = JSON_stringify (defaultObject r)"
    by (simp add: generateEditorConfig_def)
  have t: \<open>(case theme_of r of
        None \<Rightarrow> []
      | Some theme \<Rightarrow> lit '',\<newline>  "theme": '' @ QuoteJSONString (lit theme))
     = (case suggestedThemes r of
          [] \<Rightarrow> []
        | t # _ \<Rightarrow> lit '',\<newline>  "theme": '' @ QuoteJSONString (lit t))\<close>
    by (simp add: theme_of_def first_def split: list.splits)
  show \<open>generateEditorConfig r editor =
       lit ''{\<newline>  "fontSize": '' @ num (fontSize r) @
       lit '',\<newline>  "lineHeight": '' @ num (lineHeight r) @
       lit '',\<newline>  "fontWeight": '' @ num (fontWeight r) @
       lit '',\<newline>  "cursorStyle": "'' @ lit (cursorStyleName (cursorStyle r)) @
       lit ''",\<newline>  "font": '' @
       QuoteJSONString (lit
         (case suggestedFonts r of
            [] \<Rightarrow> ''JetBrains Mono''
          | f # _ \<Rightarrow> if f = [] then ''JetBrains Mono'' else f)) @
       (case suggestedThemes r of
          [] \<Rightarrow> []
        | t # _ \<Rightarrow> lit '',\<newline>  "theme": '' @ QuoteJSONString (lit t)) @
       lit ''\<newline>}''\<close>
    unfolding g default_stringify t font_of_cases ..
qed

text \<open>C9, at the editor \<^verbatim>\<open>emacs\<close> and the initial record.\<close>

theorem unknown_editor_generic_dump_witness:
  \<open>''emacs'' \<notin> {''vscode'', ''zed'', ''neovim'', ''jetbrains'', ''sublime''}
   \<and> generateEditorConfig initial ''emacs'' =
       lit ''{\<newline>  "fontSize": '' @ num 16 @
       lit '',\<newline>  "lineHeight": '' @ num (3 / 2) @
       lit '',\<newline>  "fontWeight": '' @ num 400 @
       lit '',\<newline>  "cursorStyle": "bar",\<newline>  "font": "JetBrains Mono"\<newline>}''\<close>
proof -
  have e: "''emacs'' \<notin> {''vscode'', ''zed'', ''neovim'', ''jetbrains'', ''sublime''}"
    by simp
  have q: \<open>QuoteJSONString (lit ''JetBrains Mono'') = lit ''"JetBrains Mono"''\<close>
    by (subst quote_plain) (simp_all add: plainChar_def lit_def)
  show ?thesis
    using e unknown_editor_generic_dump [of initial "''emacs''", THEN conjunct2, THEN mp, OF e]
    by (simp add: q) (simp add: lit_def)
qed

text \<open>
  C9, where the claim as written fails. \<open>suggestedFonts\<close> is the one-element list
  holding the empty string: it is not empty, and the font of the dump is
  \<^verbatim>\<open>JetBrains Mono\<close>, not the first suggested font.
\<close>

theorem empty_font_name_falls_back:
  \<open>''emacs'' \<notin> {''vscode'', ''zed'', ''neovim'', ''jetbrains'', ''sublime''}
   \<and> suggestedFonts emptyFontName \<noteq> []
   \<and> hd (suggestedFonts emptyFontName) = []
   \<and> generateEditorConfig emptyFontName ''emacs'' =
       lit ''{\<newline>  "fontSize": '' @ num 16 @
       lit '',\<newline>  "lineHeight": '' @ num (3 / 2) @
       lit '',\<newline>  "fontWeight": '' @ num 400 @
       lit '',\<newline>  "cursorStyle": "bar",\<newline>  "font": "JetBrains Mono"\<newline>}''\<close>
proof -
  have g: "generateEditorConfig emptyFontName ''emacs'' = JSON_stringify (defaultObject emptyFontName)"
    by (simp add: generateEditorConfig_def)
  have q: \<open>QuoteJSONString (lit ''JetBrains Mono'') = lit ''"JetBrains Mono"''\<close>
    by (subst quote_plain) (simp_all add: plainChar_def lit_def)
  have f: "font_of emptyFontName = ''JetBrains Mono''"
    by (simp add: font_of_cases emptyFontName_def)
  have th: "theme_of emptyFontName = None"
    by (simp add: theme_of_def first_def emptyFontName_def)
  show ?thesis
    unfolding g default_stringify f th q
    by (simp add: emptyFontName_def) (simp add: lit_def)
qed

end
